theory Spec2Isabelle
  imports Main "HOL-Library.Word" "HOL-Library.AList"
begin

section \<open>The debugger control core of \<^verbatim>\<open>proc/proc.go\<close>\<close>

text \<open>
  A shallow embedding of the \<^verbatim>\<open>Process\<close> controller. Go values are modelled as follows.
  \<^item> \<^verbatim>\<open>uint64\<close> is \<open>64 word\<close>: subtraction and addition wrap around. An \<^verbatim>\<open>int\<close> the file
    computes with (a line number, a line offset, the count of
    \<^verbatim>\<open>setChanRecvBreakpoints\<close>) is a \<open>64 word\<close> too, read as a signed number by \<open>sint\<close>:
    \<^verbatim>\<open>lineno + lineOffset\<close> and \<^verbatim>\<open>lineno++\<close> wrap around at \<open>2 ^ 63\<close> as they do on the
    64-bit targets of the debugger. An \<^verbatim>\<open>int\<close> the file only copies and compares (a
    thread, goroutine, process or breakpoint id) is an \<open>int\<close>.
  \<^item> A Go map is an association list: \<open>map_of\<close> is the lookup, \<open>AList.delete\<close> is
    \<^verbatim>\<open>delete\<close>, and the order of the list is the order in which one \<^verbatim>\<open>range\<close> loop
    visits the entries (Go leaves that order open, so a statement about every list is a
    statement about every order).
  \<^item> \<^verbatim>\<open>*Thread\<close> is a reference \<open>tref\<close> into the store \<open>theap\<close> of thread objects:
    \<^verbatim>\<open>Threads\<close> and \<^verbatim>\<open>CurrentThread\<close> share thread objects, and a write made through one
    is read through the other. \<^verbatim>\<open>CurrentThread\<close> is not \<^verbatim>\<open>nil\<close>: the operations modelled
    run after the initialization, which sets it.
  \<^item> \<^verbatim>\<open>*Breakpoint\<close> and \<^verbatim>\<open>*G\<close> are values, and \<open>None\<close> is \<^verbatim>\<open>nil\<close> where the file tests
    for it. The file writes a breakpoint only in \<^verbatim>\<open>Next\<close> (the condition of the temporary
    breakpoints of the table) and a \<^verbatim>\<open>G\<close> only before it is shared. The values of the
    breakpoint table are not \<^verbatim>\<open>nil\<close>.
  \<^item> A slice is a \<open>list option\<close>: \<open>None\<close> is the \<^verbatim>\<open>nil\<close> slice.
  \<^item> An \<^verbatim>\<open>error\<close> result is an \<open>error option\<close> (\<open>None\<close> is \<^verbatim>\<open>nil\<close>), or the left
    summand of a sum when the other result is meaningless on failure. A run-time panic
    is the error \<open>Panic\<close>.
  \<^item> Everything the file calls but does not define (thread, breakpoint, symbol table,
    architecture and operating system code) is a field of the record \<open>env\<close>, with the
    symbol tables and the architecture that the fields of \<^verbatim>\<open>Process\<close> point to; the
    traced process and the operating system are the component \<open>tracee\<close> of the state,
    of an arbitrary type. The two channels of \<^verbatim>\<open>Process\<close> serialize the calls of the
    operating system and carry no state of their own.
\<close>

unbundle bit_operations_syntax

type_synonym addr = "64 word"
type_synonym goint = "64 word"
type_synonym byte = "8 word"
type_synonym tref = nat

datatype error =
    NoBreakpointError addr
  | BreakpointExistsError addr
  | NextWhileNexting
  | ThreadDoesNotExist int
  | CouldNotFindThread int
  | UnknownGoroutine int
  | CouldNotFindFunction string
  | ProcessAlreadyExited
  | ThreadBlockedError
  | NoReturnAddr
  | GoroutineExitingError int
  | NullAddrError
  | OtherError nat
  | Panic

record Func =
  Name :: string
  Entry :: addr

record Location =
  PC :: addr
  File :: string
  Line :: int
  Fn :: "Func option"

record Breakpoint =
  Addr :: addr
  ID :: int
  Temp :: bool
  Cond :: int

record Thread =
  Id :: int
  running :: bool
  Status :: "int option"
  CurrentBreakpoint :: "Breakpoint option"
  BreakpointConditionMet :: bool

record G =
  G_Id :: int
  G_Status :: nat
  CurrentLoc :: Location
  thread :: "tref option"

record 'w Process =
  Pid :: int
  Breakpoints :: "(addr \<times> Breakpoint) list"
  Threads :: "(int \<times> tref) list"
  CurrentThread :: tref
  SelectedGoroutine :: "G option"
  allGCache :: "G list option"
  firstStart :: bool
  breakpointIDCounter :: int
  tempBreakpointIDCounter :: int
  halt :: bool
  exited :: bool
  theap :: "tref \<Rightarrow> Thread"
  tracee :: 'w

subsection \<open>Code outside the file\<close>

text \<open>
  \<^verbatim>\<open>proc.go\<close> calls methods of \<^verbatim>\<open>Thread\<close>, \<^verbatim>\<open>Breakpoint\<close>, \<^verbatim>\<open>G\<close>, the architecture, the
  symbol table, the DWARF reader and the platform layer. Their code is not part of the
  file, so each is a field of \<open>env\<close> and every theorem holds for every value of it.
  Accessors that only read take the thread object and the tracee; \<^verbatim>\<open>Breakpoint.Clear\<close>
  writes the tracee; the stepping, waiting and breakpoint-setting operations may change
  the whole \<^verbatim>\<open>Process\<close>. \<^verbatim>\<open>readMemory\<close> returns Go's pair of a byte slice and an error.
  The DWARF reader is its position: \<open>rdr_AddrFor\<close> maps a position and a name to a
  result and the next position.
\<close>

record 'w env =
  arch_BreakpointSize :: int
  arch_PtrSize :: int
  Gdead :: nat
  bp_Clear :: "Breakpoint \<Rightarrow> Thread \<Rightarrow> 'w \<Rightarrow> error option \<times> 'w"
  bp_checkCondition :: "Breakpoint \<Rightarrow> Thread \<Rightarrow> 'w \<Rightarrow> bool"
  thread_GetG :: "Thread \<Rightarrow> 'w \<Rightarrow> error + G"
  thread_blocked :: "Thread \<Rightarrow> 'w \<Rightarrow> bool"
  thread_readMemory :: "Thread \<Rightarrow> addr \<Rightarrow> int \<Rightarrow> 'w \<Rightarrow> byte list \<times> error option"
  thread_Location :: "Thread \<Rightarrow> 'w \<Rightarrow> error + Location"
  thread_PC :: "Thread \<Rightarrow> 'w \<Rightarrow> error + addr"
  thread_Step :: "tref \<Rightarrow> 'w Process \<Rightarrow> error option \<times> 'w Process"
  thread_resume :: "tref \<Rightarrow> 'w Process \<Rightarrow> error option \<times> 'w Process"
  thread_Halt :: "tref \<Rightarrow> 'w Process \<Rightarrow> error option \<times> 'w Process"
  thread_SetCurrentBreakpoint :: "tref \<Rightarrow> 'w Process \<Rightarrow> error option \<times> 'w Process"
  thread_setNextBreakpoints :: "tref \<Rightarrow> 'w Process \<Rightarrow> error option \<times> 'w Process"
  parseG :: "Thread \<Rightarrow> addr \<Rightarrow> bool \<Rightarrow> 'w \<Rightarrow> error + G"
  g_ChanRecvBlocked :: "G \<Rightarrow> bool"
  g_chanRecvReturnAddr :: "G \<Rightarrow> 'w Process \<Rightarrow> error + addr"
  rdr_AddrFor :: "nat \<Rightarrow> string \<Rightarrow> (error + addr) \<times> nat"
  sym_LookupFunc :: "string \<Rightarrow> Func option"
  sym_PCToLine :: "addr \<Rightarrow> string \<times> goint \<times> Func option"
  sym_LineToPC :: "string \<Rightarrow> goint \<Rightarrow> addr \<times> Func option \<times> error option"
  sym_PCToFunc :: "addr \<Rightarrow> Func option"
  setBreakpoint :: "int \<Rightarrow> addr \<Rightarrow> bool \<Rightarrow> 'w Process \<Rightarrow> (error + Breakpoint) \<times> 'w Process"
  os_trapWait :: "int \<Rightarrow> 'w Process \<Rightarrow> (error + tref) \<times> 'w Process"
  os_requestManualStop :: "'w Process \<Rightarrow> error option \<times> 'w Process"
  os_setExtraBreakpoints :: "'w Process \<Rightarrow> error option \<times> 'w Process"
  os_exitGuard :: "error \<Rightarrow> 'w Process \<Rightarrow> error option \<times> 'w Process"
  PtraceDetach :: "int \<Rightarrow> int \<Rightarrow> 'w \<Rightarrow> error option \<times> 'w"
  sys_Kill :: "int \<Rightarrow> int \<Rightarrow> 'w \<Rightarrow> error option \<times> 'w"

text \<open>The thread \<^verbatim>\<open>dbp.CurrentThread\<close> points to.\<close>

definition cur :: "'w Process \<Rightarrow> Thread" where
  "cur s = theap s (CurrentThread s)"

text \<open>
  Modelled from the spec: \<^verbatim>\<open>Thread.onTriggeredBreakpoint\<close> and
  \<^verbatim>\<open>Thread.onTriggeredTempBreakpoint\<close>, whose code is not in the file. The first is
  "CurrentBreakpoint non-null and BreakpointConditionMet", the second "triggered and
  the breakpoint's temp flag is set".
\<close>

definition onTriggeredBreakpoint :: "Thread \<Rightarrow> bool" where
  "onTriggeredBreakpoint th =
     (case CurrentBreakpoint th of None \<Rightarrow> False | Some bp \<Rightarrow> BreakpointConditionMet th)"

definition onTriggeredTempBreakpoint :: "Thread \<Rightarrow> bool" where
  "onTriggeredTempBreakpoint th =
     (case CurrentBreakpoint th of None \<Rightarrow> False | Some bp \<Rightarrow> BreakpointConditionMet th \<and> Temp bp)"

subsection \<open>FindBreakpoint and ClearBreakpoint\<close>

definition BreakpointSize :: "'w env \<Rightarrow> addr" where
  "BreakpointSize e = word_of_int (arch_BreakpointSize e)"

definition FindBreakpoint :: "'w env \<Rightarrow> addr \<Rightarrow> 'w Process \<Rightarrow> Breakpoint option" where
  "FindBreakpoint e pc s =
     (case map_of (Breakpoints s) (pc - BreakpointSize e) of
        Some bp \<Rightarrow> Some bp
      | None \<Rightarrow>
          (case map_of (Breakpoints s) pc of
             Some bp \<Rightarrow> Some bp
           | None \<Rightarrow> None))"

definition ClearBreakpoint ::
  "'w env \<Rightarrow> addr \<Rightarrow> 'w Process \<Rightarrow> (error + Breakpoint) \<times> 'w Process" where
  "ClearBreakpoint e addr s =
     (case FindBreakpoint e addr s of
        None \<Rightarrow> (Inl (NoBreakpointError addr), s)
      | Some bp \<Rightarrow>
          (case bp_Clear e bp (cur s) (tracee s) of
             (Some err, w) \<Rightarrow> (Inl err, s\<lparr>tracee := w\<rparr>)
           | (None, w) \<Rightarrow>
               (Inr bp, s\<lparr>tracee := w, Breakpoints := AList.delete addr (Breakpoints s)\<rparr>)))"

subsection \<open>Thread and goroutine selection\<close>

definition SwitchThread :: "'w env \<Rightarrow> int \<Rightarrow> 'w Process \<Rightarrow> error option \<times> 'w Process" where
  "SwitchThread e tid s =
     (case map_of (Threads s) tid of
        Some th \<Rightarrow>
          (None, s\<lparr>CurrentThread := th,
                    SelectedGoroutine :=
                      (case thread_GetG e (theap s th) (tracee s) of
                         Inr g \<Rightarrow> Some g
                       | Inl err \<Rightarrow> None)\<rparr>)
      | None \<Rightarrow> (Some (ThreadDoesNotExist tid), s))"

subsection \<open>GoroutinesInfo\<close>

text \<open>\<^verbatim>\<open>binary.LittleEndian.Uint64\<close> of the Go library: it indexes \<^verbatim>\<open>b[7]\<close> first, which
  panics on a slice of fewer than eight bytes.\<close>

definition LittleEndian_Uint64 :: "byte list \<Rightarrow> error + addr" where
  "LittleEndian_Uint64 b =
     (if length b < 8 then Inl Panic
      else Inr (ucast (b ! 0) OR push_bit 8 (ucast (b ! 1)) OR push_bit 16 (ucast (b ! 2))
                OR push_bit 24 (ucast (b ! 3)) OR push_bit 32 (ucast (b ! 4))
                OR push_bit 40 (ucast (b ! 5)) OR push_bit 48 (ucast (b ! 6))
                OR push_bit 56 (ucast (b ! 7))))"

text \<open>\<^verbatim>\<open>append(allg, g)\<close>: the result of \<^verbatim>\<open>append\<close> with an element is never \<^verbatim>\<open>nil\<close>.\<close>

definition append_slice :: "'a list option \<Rightarrow> 'a \<Rightarrow> 'a list option" where
  "append_slice sl x = (case sl of None \<Rightarrow> Some [x] | Some xs \<Rightarrow> Some (xs @ [x]))"

definition slice_elems :: "'a list option \<Rightarrow> 'a list" where
  "slice_elems sl = (case sl of None \<Rightarrow> [] | Some xs \<Rightarrow> xs)"

text \<open>The first loop: the goroutine of every thread that is not blocked.\<close>

fun threadg_loop ::
  "'w env \<Rightarrow> 'w Process \<Rightarrow> (int \<times> tref) list \<Rightarrow> (int \<rightharpoonup> tref) \<Rightarrow> (int \<rightharpoonup> tref)" where
  "threadg_loop e s [] threadg = threadg"
| "threadg_loop e s ((i, th) # rest) threadg =
     (if thread_blocked e (theap s th) (tracee s) then threadg_loop e s rest threadg
      else (case thread_GetG e (theap s th) (tracee s) of
              Inr g \<Rightarrow> threadg_loop e s rest (threadg(G_Id g \<mapsto> th))
            | Inl err \<Rightarrow> threadg_loop e s rest threadg))"

text \<open>\<^verbatim>\<open>rdr.Seek(0)\<close>, then the address of \<^verbatim>\<open>runtime.allgs\<close>, or of \<^verbatim>\<open>runtime.allg\<close> from
  where the first search left the reader.\<close>

definition allgentryaddr_of :: "'w env \<Rightarrow> error + addr" where
  "allgentryaddr_of e =
     (case rdr_AddrFor e 0 ''runtime.allgs'' of
        (Inr a, pos) \<Rightarrow> Inr a
      | (Inl err, pos) \<Rightarrow>
          (case rdr_AddrFor e pos ''runtime.allg'' of
             (Inr a, pos') \<Rightarrow> Inr a
           | (Inl err', pos') \<Rightarrow> Inl err'))"

text \<open>One pass of the loop body up to the test of the status: parse, and attach the
  thread when one runs the goroutine.\<close>

definition parse_and_attach ::
  "'w env \<Rightarrow> 'w Process \<Rightarrow> (int \<rightharpoonup> tref) \<Rightarrow> addr \<Rightarrow> error + G" where
  "parse_and_attach e s threadg a =
     (case parseG e (cur s) a True (tracee s) of
        Inl err \<Rightarrow> Inl err
      | Inr g \<Rightarrow>
          (case threadg (G_Id g) of
             Some th \<Rightarrow>
               (case thread_Location e (theap s th) (tracee s) of
                  Inl err \<Rightarrow> Inl err
                | Inr loc \<Rightarrow> Inr (g\<lparr>thread := Some th, CurrentLoc := loc\<rparr>))
           | None \<Rightarrow> Inr g))"

function allg_loop ::
  "'w env \<Rightarrow> 'w Process \<Rightarrow> (int \<rightharpoonup> tref) \<Rightarrow> addr \<Rightarrow> addr \<Rightarrow> addr \<Rightarrow> G list option
     \<Rightarrow> error + G list option" where
  "allg_loop e s threadg allgptr allglen i allg =
     (if i < allglen then
        (case parse_and_attach e s threadg (allgptr + i * word_of_int (arch_PtrSize e)) of
           Inl err \<Rightarrow> Inl err
         | Inr g \<Rightarrow>
             allg_loop e s threadg allgptr allglen (i + 1)
               (if G_Status g \<noteq> Gdead e then append_slice allg g else allg))
      else Inr allg)"
  by pat_completeness auto
termination
proof (relation "measure (\<lambda>(e, s, threadg, allgptr, allglen, i, allg). unat allglen - unat i)")
  show "wf (measure (\<lambda>(e, s, threadg, allgptr, allglen, i, allg). unat allglen - unat i))"
    by simp
next
  fix e :: "'w env" and s :: "'w Process" and threadg :: "int \<rightharpoonup> tref"
    and allgptr allglen i :: addr and allg :: "G list option" and x2 :: G
  assume a: "i < allglen"
  have "i \<noteq> - 1" using a by (metis max_word_max leD)
  then have "1 + i \<noteq> 0" by (metis add.commute max_word_wrap)
  then have "unat (i + 1) = Suc (unat i)" using unatSuc [of i] by (simp add: add.commute)
  moreover have "unat i < unat allglen" using a by (simp add: word_less_nat_alt)
  ultimately show "((e, s, threadg, allgptr, allglen, i + 1,
                     if G_Status x2 \<noteq> Gdead e then append_slice allg x2 else allg),
                    (e, s, threadg, allgptr, allglen, i, allg))
                   \<in> measure (\<lambda>(e, s, threadg, allgptr, allglen, i, allg). unat allglen - unat i)"
    by simp
qed

declare allg_loop.simps [simp del]

definition GoroutinesInfo ::
  "'w env \<Rightarrow> 'w Process \<Rightarrow> (error + G list option) \<times> 'w Process" where
  "GoroutinesInfo e s =
     (case allGCache s of
        Some gs \<Rightarrow> (Inr (Some gs), s)
      | None \<Rightarrow>
          (let threadg = threadg_loop e s (Threads s) Map.empty in
           case rdr_AddrFor e 0 ''runtime.allglen'' of
             (Inl err, pos) \<Rightarrow> (Inl err, s)
           | (Inr a, pos) \<Rightarrow>
               (case thread_readMemory e (cur s) a 8 (tracee s) of
                  (allglenBytes, Some err) \<Rightarrow> (Inl err, s)
                | (allglenBytes, None) \<Rightarrow>
                    (case LittleEndian_Uint64 allglenBytes of
                       Inl err \<Rightarrow> (Inl err, s)
                     | Inr allglen \<Rightarrow>
                         (case allgentryaddr_of e of
                            Inl err \<Rightarrow> (Inl err, s)
                          | Inr allgentryaddr \<Rightarrow>
                              (case thread_readMemory e (cur s) allgentryaddr (arch_PtrSize e)
                                      (tracee s) of
                                 (faddr, err) \<Rightarrow>
                                   (case LittleEndian_Uint64 faddr of
                                      Inl err' \<Rightarrow> (Inl err', s)
                                    | Inr allgptr \<Rightarrow>
                                        (case allg_loop e s threadg allgptr allglen 0 None of
                                           Inl err' \<Rightarrow> (Inl err', s)
                                         | Inr allg \<Rightarrow>
                                             (Inr allg, s\<lparr>allGCache := allg\<rparr>)))))))))"

definition FindGoroutine ::
  "'w env \<Rightarrow> int \<Rightarrow> 'w Process \<Rightarrow> (error + G option) \<times> 'w Process" where
  "FindGoroutine e gid s =
     (if gid = - 1 then (Inr (SelectedGoroutine s), s)
      else (case GoroutinesInfo e s of
              (Inl err, s') \<Rightarrow> (Inl err, s')
            | (Inr gs, s') \<Rightarrow>
                (case find (\<lambda>g. G_Id g = gid) (slice_elems gs) of
                   Some g \<Rightarrow> (Inr (Some g), s')
                 | None \<Rightarrow> (Inl (UnknownGoroutine gid), s'))))"

definition SwitchGoroutine :: "'w env \<Rightarrow> int \<Rightarrow> 'w Process \<Rightarrow> error option \<times> 'w Process" where
  "SwitchGoroutine e gid s =
     (case FindGoroutine e gid s of
        (Inl err, s') \<Rightarrow> (Some err, s')
      | (Inr None, s') \<Rightarrow> (None, s')
      | (Inr (Some g), s') \<Rightarrow>
          (case thread g of
             Some th \<Rightarrow> SwitchThread e (Id (theap s' th)) s'
           | None \<Rightarrow> (None, s'\<lparr>SelectedGoroutine := Some g\<rparr>)))"

subsection \<open>Clearing temporary breakpoints\<close>

text \<open>
  The first loop of \<^verbatim>\<open>clearTempBreakpoints\<close> ranges over the table while
  \<^verbatim>\<open>ClearBreakpoint\<close> deletes from it: Go does not produce an entry that was removed
  before the loop reached it, which is the first test.
\<close>

fun clearTemp_loop ::
  "'w env \<Rightarrow> (addr \<times> Breakpoint) list \<Rightarrow> 'w Process \<Rightarrow> error option \<times> 'w Process" where
  "clearTemp_loop e [] s = (None, s)"
| "clearTemp_loop e ((a, bp) # rest) s =
     (if map_of (Breakpoints s) a = None then clearTemp_loop e rest s
      else if \<not> Temp bp then clearTemp_loop e rest s
      else (case ClearBreakpoint e (Addr bp) s of
              (Inl err, s') \<Rightarrow> (Some err, s')
            | (Inr b, s') \<Rightarrow> clearTemp_loop e rest s'))"

fun clearTemp_latches :: "tref list \<Rightarrow> (tref \<Rightarrow> Thread) \<Rightarrow> (tref \<Rightarrow> Thread)" where
  "clearTemp_latches [] h = h"
| "clearTemp_latches (th # rest) h =
     (case CurrentBreakpoint (h th) of
        None \<Rightarrow> clearTemp_latches rest h
      | Some bp \<Rightarrow>
          (if Temp bp then clearTemp_latches rest (h(th := (h th)\<lparr>CurrentBreakpoint := None\<rparr>))
           else clearTemp_latches rest h))"

definition clearTempBreakpoints :: "'w env \<Rightarrow> 'w Process \<Rightarrow> error option \<times> 'w Process" where
  "clearTempBreakpoints e s =
     (case clearTemp_loop e (Breakpoints s) s of
        (Some err, s') \<Rightarrow> (Some err, s')
      | (None, s') \<Rightarrow>
          (None, s'\<lparr>theap := clearTemp_latches (map snd (Threads s')) (theap s')\<rparr>))"

subsection \<open>Halt, run, Step\<close>

fun Halt_loop :: "'w env \<Rightarrow> tref list \<Rightarrow> 'w Process \<Rightarrow> error option \<times> 'w Process" where
  "Halt_loop e [] s = (None, s)"
| "Halt_loop e (th # rest) s =
     (case thread_Halt e th s of
        (Some err, s') \<Rightarrow> (Some err, s')
      | (None, s') \<Rightarrow> Halt_loop e rest s')"

definition Halt :: "'w env \<Rightarrow> 'w Process \<Rightarrow> error option \<times> 'w Process" where
  "Halt e s = Halt_loop e (map snd (Threads s)) s"

definition Running :: "'w Process \<Rightarrow> bool" where
  "Running s = list_ex (\<lambda>(i, th). running (theap s th)) (Threads s)"

fun clear_latches :: "tref list \<Rightarrow> (tref \<Rightarrow> Thread) \<Rightarrow> (tref \<Rightarrow> Thread)" where
  "clear_latches [] h = h"
| "clear_latches (th # rest) h = clear_latches rest (h(th := (h th)\<lparr>CurrentBreakpoint := None\<rparr>))"

definition run ::
  "('w Process \<Rightarrow> error option \<times> 'w Process) \<Rightarrow> 'w Process \<Rightarrow> error option \<times> 'w Process" where
  "run fn s =
     (let s1 = s\<lparr>allGCache := None\<rparr> in
      if exited s1 then (Some ProcessAlreadyExited, s1)
      else fn (s1\<lparr>theap := clear_latches (map snd (Threads s1)) (theap s1)\<rparr>))"

fun Step_loop :: "'w env \<Rightarrow> tref list \<Rightarrow> 'w Process \<Rightarrow> error option \<times> 'w Process" where
  "Step_loop e [] s = (None, s)"
| "Step_loop e (th # rest) s =
     (if thread_blocked e (theap s th) (tracee s) then Step_loop e rest s
      else (case thread_Step e th s of
              (Some err, s') \<Rightarrow> (Some err, s')
            | (None, s') \<Rightarrow> Step_loop e rest s'))"

definition Step :: "'w env \<Rightarrow> 'w Process \<Rightarrow> error option \<times> 'w Process" where
  "Step e s = run (\<lambda>s'. Step_loop e (map snd (Threads s')) s') s"

subsection \<open>Continue\<close>

fun stepOver_loop :: "'w env \<Rightarrow> tref list \<Rightarrow> 'w Process \<Rightarrow> error option \<times> 'w Process" where
  "stepOver_loop e [] s = (None, s)"
| "stepOver_loop e (th # rest) s =
     (case CurrentBreakpoint (theap s th) of
        None \<Rightarrow> stepOver_loop e rest s
      | Some bp \<Rightarrow>
          (case thread_Step e th s of
             (Some err, s') \<Rightarrow> (Some err, s')
           | (None, s') \<Rightarrow>
               stepOver_loop e rest
                 (s'\<lparr>theap := (theap s')(th := (theap s' th)\<lparr>CurrentBreakpoint := None\<rparr>)\<rparr>)))"

fun resume_loop ::
  "'w env \<Rightarrow> tref list \<Rightarrow> 'w Process \<Rightarrow> (error option \<times> 'w Process) + 'w Process" where
  "resume_loop e [] s = Inr s"
| "resume_loop e (th # rest) s =
     (case thread_resume e th s of
        (Some err, s') \<Rightarrow> Inl (os_exitGuard e err s')
      | (None, s') \<Rightarrow> resume_loop e rest s')"

text \<open>The closure \<^verbatim>\<open>continueOnce\<close> hands to \<^verbatim>\<open>run\<close>.\<close>

definition continueOnce_fn :: "'w env \<Rightarrow> 'w Process \<Rightarrow> error option \<times> 'w Process" where
  "continueOnce_fn e s =
     (case os_trapWait e (- 1) s of
        (Inl err, s1) \<Rightarrow> (Some err, s1)
      | (Inr th, s1) \<Rightarrow>
          (case Halt e s1 of
             (Some err, s2) \<Rightarrow> os_exitGuard e err s2
           | (None, s2) \<Rightarrow>
               (let s3 = snd (SwitchThread e (Id (theap s2 th)) s2) in
                case os_setExtraBreakpoints e s3 of
                  (Some err, s4) \<Rightarrow> (Some err, s4)
                | (None, s4) \<Rightarrow>
                    (case thread_Location e (theap s4 th) (tracee s4) of
                       Inl err \<Rightarrow> (Some err, s4)
                     | Inr loc \<Rightarrow>
                         (if (case Fn loc of None \<Rightarrow> False
                              | Some f \<Rightarrow> Name f = ''runtime.breakpoint'')
                          then (case thread_Step e th s4 of
                                  (Some err, s5) \<Rightarrow> (Some err, s5)
                                | (None, s5) \<Rightarrow>
                                    (case thread_Step e th s5 of
                                       (Some err, s6) \<Rightarrow> (Some err, s6)
                                     | (None, s6) \<Rightarrow> (None, s6)))
                          else (None, s4))))))"

definition continueOnce :: "'w env \<Rightarrow> 'w Process \<Rightarrow> error option \<times> 'w Process" where
  "continueOnce e s =
     (case stepOver_loop e (map snd (Threads s)) s of
        (Some err, s1) \<Rightarrow> (Some err, s1)
      | (None, s1) \<Rightarrow>
          (case resume_loop e (map snd (Threads s1)) s1 of
             Inl r \<Rightarrow> r
           | Inr s2 \<Rightarrow> run (continueOnce_fn e) s2))"

text \<open>The loop of \<^verbatim>\<open>runBreakpointConditions\<close> over the threads: it returns the thread
  store with the conditions evaluated, \<^verbatim>\<open>trigth\<close> and \<^verbatim>\<open>tempth\<close>.\<close>

fun conditions_loop ::
  "'w env \<Rightarrow> 'w \<Rightarrow> tref list \<Rightarrow> (tref \<Rightarrow> Thread) \<Rightarrow> tref option \<Rightarrow> tref option
     \<Rightarrow> (tref \<Rightarrow> Thread) \<times> tref option \<times> tref option" where
  "conditions_loop e w [] h trigth tempth = (h, trigth, tempth)"
| "conditions_loop e w (th # rest) h trigth tempth =
     (case CurrentBreakpoint (h th) of
        None \<Rightarrow> conditions_loop e w rest h trigth tempth
      | Some bp \<Rightarrow>
          (let h' = h(th := (h th)\<lparr>BreakpointConditionMet := bp_checkCondition e bp (h th) w\<rparr>) in
           if onTriggeredBreakpoint (h' th) then
             (if onTriggeredTempBreakpoint (h' th) then
                conditions_loop e w rest h' trigth (if tempth = None then Some th else tempth)
              else
                conditions_loop e w rest h' (if trigth = None then Some th else trigth) tempth)
           else conditions_loop e w rest h' trigth tempth))"

definition runBreakpointConditions ::
  "'w env \<Rightarrow> 'w Process \<Rightarrow> error option \<times> 'w Process" where
  "runBreakpointConditions e s =
     (case conditions_loop e (tracee s) (map snd (Threads s)) (theap s) None None of
        (h, trigth, tempth) \<Rightarrow>
          (let s1 = s\<lparr>theap := h\<rparr>; cth = cur s1 in
           case tempth of
             Some t \<Rightarrow>
               (if \<not> onTriggeredTempBreakpoint cth then SwitchThread e (Id (theap s1 t)) s1
                else (None, s1))
           | None \<Rightarrow>
               (case trigth of
                  Some t \<Rightarrow>
                    (if \<not> onTriggeredBreakpoint cth then SwitchThread e (Id (theap s1 t)) s1
                     else (None, s1))
                | None \<Rightarrow> (None, s1))))"

text \<open>One pass of the body of the loop of \<^verbatim>\<open>Continue\<close>: \<open>Inl\<close> is a \<^verbatim>\<open>return\<close> with its
  error, \<open>Inr\<close> is the end of the body, from where the loop starts again.\<close>

definition Continue_body ::
  "'w env \<Rightarrow> 'w Process \<Rightarrow> (error option \<times> 'w Process) + 'w Process" where
  "Continue_body e s =
     (case continueOnce e s of
        (Some err, s1) \<Rightarrow> Inl (Some err, s1)
      | (None, s1) \<Rightarrow>
          (let exitAnyway = (CurrentBreakpoint (cur s1) = None) in
           case runBreakpointConditions e s1 of
             (Some err, s2) \<Rightarrow> Inl (Some err, s2)
           | (None, s2) \<Rightarrow>
               (if onTriggeredBreakpoint (cur s2) then
                  (if onTriggeredTempBreakpoint (cur s2) then
                     (case clearTempBreakpoints e s2 of
                        (Some err, s3) \<Rightarrow> Inl (Some err, s3)
                      | (None, s3) \<Rightarrow> Inl (None, s3))
                   else Inl (None, s2))
                else if exitAnyway then Inl (None, s2)
                else Inr s2)))"

text \<open>\<^verbatim>\<open>Continue\<close> may loop for ever: \<open>None\<close> is the run that never returns.\<close>

partial_function (option) Continue ::
  "'w env \<Rightarrow> 'w Process \<Rightarrow> (error option \<times> 'w Process) option" where
  "Continue e s =
     (case Continue_body e s of
        Inl r \<Rightarrow> Some r
      | Inr s' \<Rightarrow> Continue e s')"

subsection \<open>Setting breakpoints, Next\<close>

definition SetBreakpoint ::
  "'w env \<Rightarrow> addr \<Rightarrow> 'w Process \<Rightarrow> (error + Breakpoint) \<times> 'w Process" where
  "SetBreakpoint e a s = setBreakpoint e (Id (cur s)) a False s"

definition SetTempBreakpoint ::
  "'w env \<Rightarrow> addr \<Rightarrow> 'w Process \<Rightarrow> (error + Breakpoint) \<times> 'w Process" where
  "SetTempBreakpoint e a s = setBreakpoint e (Id (cur s)) a True s"

fun chanRecv_loop ::
  "'w env \<Rightarrow> G list \<Rightarrow> 'w Process \<Rightarrow> goint \<Rightarrow> (error + goint) \<times> 'w Process" where
  "chanRecv_loop e [] s count = (Inr count, s)"
| "chanRecv_loop e (g # rest) s count =
     (if g_ChanRecvBlocked e g then
        (case g_chanRecvReturnAddr e g s of
           Inl err \<Rightarrow>
             (if err = NullAddrError then chanRecv_loop e rest s count else (Inl err, s))
         | Inr ret \<Rightarrow>
             (case SetTempBreakpoint e ret s of
                (Inl err, s') \<Rightarrow>
                  (case err of
                     BreakpointExistsError a \<Rightarrow> chanRecv_loop e rest s' count
                   | _ \<Rightarrow> (Inl err, s'))
              | (Inr bp, s') \<Rightarrow> chanRecv_loop e rest s' (count + 1)))
      else chanRecv_loop e rest s count)"

definition setChanRecvBreakpoints ::
  "'w env \<Rightarrow> 'w Process \<Rightarrow> (error + goint) \<times> 'w Process" where
  "setChanRecvBreakpoints e s =
     (case GoroutinesInfo e s of
        (Inl err, s') \<Rightarrow> (Inl err, s')
      | (Inr allg, s') \<Rightarrow> chanRecv_loop e (slice_elems allg) s' 0)"

text \<open>The last two statements of \<^verbatim>\<open>Next\<close>: stamp the goroutine on every temporary
  breakpoint unless the goroutine is exiting, then \<^verbatim>\<open>Continue\<close>.\<close>

definition stamp_temps :: "int \<Rightarrow> (addr \<times> Breakpoint) list \<Rightarrow> (addr \<times> Breakpoint) list" where
  "stamp_temps gid bps = map (\<lambda>(i, bp). (i, if Temp bp then bp\<lparr>Cond := gid\<rparr> else bp)) bps"

definition Next_continue ::
  "'w env \<Rightarrow> G \<Rightarrow> bool \<Rightarrow> 'w Process \<Rightarrow> (error option \<times> 'w Process) option" where
  "Next_continue e g goroutineExiting s =
     Continue e (if \<not> goroutineExiting
                 then s\<lparr>Breakpoints := stamp_temps (G_Id g) (Breakpoints s)\<rparr>
                 else s)"

definition Next :: "'w env \<Rightarrow> 'w Process \<Rightarrow> (error option \<times> 'w Process) option" where
  "Next e s =
     (if list_ex (\<lambda>(i, bp). Temp bp) (Breakpoints s) then Some (Some NextWhileNexting, s)
      else
        (case thread_GetG e (cur s) (tracee s) of
           Inl err \<Rightarrow> Some (Some err, s)
         | Inr g \<Rightarrow>
             (case setChanRecvBreakpoints e s of
                (Inl err, s1) \<Rightarrow> Some (Some err, s1)
              | (Inr n, s1) \<Rightarrow>
                  (case thread_setNextBreakpoints e (CurrentThread s1) s1 of
                     (None, s2) \<Rightarrow> Next_continue e g False s2
                   | (Some err, s2) \<Rightarrow>
                       (case err of
                          ThreadBlockedError \<Rightarrow> Next_continue e g False s2
                        | NoReturnAddr \<Rightarrow> Next_continue e g False s2
                        | GoroutineExitingError goid \<Rightarrow> Next_continue e g (goid = G_Id g) s2
                        | _ \<Rightarrow> Some (Some err, snd (clearTempBreakpoints e s2)))))))"

subsection \<open>Manual stop, the stop of a thread, Detach\<close>

definition RequestManualStop :: "'w env \<Rightarrow> 'w Process \<Rightarrow> error option \<times> 'w Process" where
  "RequestManualStop e s = os_requestManualStop e (s\<lparr>halt := True\<rparr>)"

definition handleBreakpointOnThread ::
  "'w env \<Rightarrow> int \<Rightarrow> 'w Process \<Rightarrow> (error + tref) \<times> 'w Process" where
  "handleBreakpointOnThread e tid s =
     (case map_of (Threads s) tid of
        None \<Rightarrow> (Inl (CouldNotFindThread tid), s)
      | Some th \<Rightarrow>
          (case thread_SetCurrentBreakpoint e th s of
             (Some err, s1) \<Rightarrow> (Inl err, s1)
           | (None, s1) \<Rightarrow>
               (if CurrentBreakpoint (theap s1 th) \<noteq> None \<or> halt s1 then (Inr th, s1)
                else
                  (case thread_PC e (theap s1 th) (tracee s1) of
                     Inl err \<Rightarrow> (Inl err, s1)
                   | Inr pc \<Rightarrow>
                       (if (case sym_PCToFunc e pc of None \<Rightarrow> False
                            | Some f \<Rightarrow> Name f = ''runtime.breakpoint'')
                        then (case thread_Step e th s1 of
                                (Some err, s2) \<Rightarrow> (Inl err, s2)
                              | (None, s2) \<Rightarrow>
                                  (case thread_Step e th s2 of
                                     (Some err, s3) \<Rightarrow> (Inl err, s3)
                                   | (None, s3) \<Rightarrow> (Inr th, s3)))
                        else (Inl (NoBreakpointError pc), s1))))))"

fun clearAll_loop ::
  "'w env \<Rightarrow> (addr \<times> Breakpoint) list \<Rightarrow> 'w Process \<Rightarrow> error option \<times> 'w Process" where
  "clearAll_loop e [] s = (None, s)"
| "clearAll_loop e ((a, bp) # rest) s =
     (if map_of (Breakpoints s) a = None then clearAll_loop e rest s
      else (case ClearBreakpoint e (Addr bp) s of
              (Inl err, s') \<Rightarrow> (Some err, s')
            | (Inr b, s') \<Rightarrow> clearAll_loop e rest s'))"

definition Detach :: "'w env \<Rightarrow> bool \<Rightarrow> 'w Process \<Rightarrow> error option \<times> 'w Process" where
  "Detach e kill s =
     (case (if Running s then Halt e s else (None, s)) of
        (Some err, s1) \<Rightarrow> (Some err, s1)
      | (None, s1) \<Rightarrow>
          (case (if \<not> kill then clearAll_loop e (Breakpoints s1) s1 else (None, s1)) of
             (Some err, s2) \<Rightarrow> (Some err, s2)
           | (None, s2) \<Rightarrow>
               (case PtraceDetach e (Pid s2) 0 (tracee s2) of
                  (Some err, w) \<Rightarrow> (Some err, s2\<lparr>tracee := w\<rparr>)
                | (None, w) \<Rightarrow>
                    (if kill then
                       (case sys_Kill e (Pid s2) 2 w of
                          (err, w') \<Rightarrow> (err, s2\<lparr>tracee := w'\<rparr>))
                     else (None, s2\<lparr>tracee := w\<rparr>)))))"

subsection \<open>Locations of files and functions\<close>

definition FindFileLocation :: "'w env \<Rightarrow> string \<Rightarrow> goint \<Rightarrow> error + addr" where
  "FindFileLocation e fileName lineno =
     (case sym_LineToPC e fileName lineno of
        (pc, fn, Some err) \<Rightarrow> Inl err
      | (pc, fn, None) \<Rightarrow> Inr pc)"

text \<open>\<^verbatim>\<open>filepath.Ext\<close> and \<^verbatim>\<open>strings.Contains\<close> of the Go library: the suffix of the last
  path element from its last dot, and the test for a substring.\<close>

definition filepath_Ext :: "string \<Rightarrow> string" where
  "filepath_Ext path =
     (let elem = rev (takeWhile (\<lambda>c. c \<noteq> CHR ''/'') (rev path)) in
      if CHR ''.'' \<in> set elem
      then CHR ''.'' # rev (takeWhile (\<lambda>c. c \<noteq> CHR ''.'') (rev elem))
      else [])"

fun strings_Contains :: "string \<Rightarrow> string \<Rightarrow> bool" where
  "strings_Contains [] substr = (substr = [])"
| "strings_Contains (c # cs) substr =
     (take (length substr) (c # cs) = substr \<or> strings_Contains cs substr)"

text \<open>The loop of \<^verbatim>\<open>FindFunctionLocation\<close>; it has no bound, and \<open>None\<close> is the run that
  never leaves it. \<^verbatim>\<open>lineno++\<close> is the addition of the 64-bit word: after the line
  \<open>2 ^ 63 - 1\<close> the loop asks for the line \<open>- 2 ^ 63\<close>. The result is what the function
  returns after the loop: the address.\<close>

partial_function (option) firstLine_loop ::
  "'w env \<Rightarrow> string \<Rightarrow> string \<Rightarrow> addr \<Rightarrow> goint \<Rightarrow> addr option" where
  "firstLine_loop e funcName filename entry lineno =
     (case sym_LineToPC e filename (lineno + 1) of
        (pc, None, err) \<Rightarrow> firstLine_loop e funcName filename entry (lineno + 1)
      | (pc, Some fn, err) \<Rightarrow>
          (if Name fn \<noteq> funcName then
             (if strings_Contains (Name fn) funcName
              then firstLine_loop e funcName filename entry (lineno + 1)
              else Some entry)
           else if Name fn = funcName then Some pc
           else firstLine_loop e funcName filename entry (lineno + 1)))"

definition FindFunctionLocation ::
  "'w env \<Rightarrow> string \<Rightarrow> bool \<Rightarrow> goint \<Rightarrow> (addr \<times> error option) option" where
  "FindFunctionLocation e funcName firstLine lineOffset =
     (case sym_LookupFunc e funcName of
        None \<Rightarrow> Some (0, Some (CouldNotFindFunction funcName))
      | Some origfn \<Rightarrow>
          (if firstLine then
             (case sym_PCToLine e (Entry origfn) of
                (filename, lineno, fn) \<Rightarrow>
                  (if filepath_Ext filename \<noteq> ''.go'' then Some (Entry origfn, None)
                   else map_option (\<lambda>pc. (pc, None))
                          (firstLine_loop e funcName filename (Entry origfn) lineno)))
           else if sint lineOffset > 0 then
             (case sym_PCToLine e (Entry origfn) of
                (filename, lineno, fn) \<Rightarrow>
                  (case sym_LineToPC e filename (lineno + lineOffset) of
                     (breakAddr, fn', err) \<Rightarrow> Some (breakAddr, err)))
           else Some (Entry origfn, None)))"

text \<open>A line the loop passes over: no function at it, or a function whose name is not
  \<open>funcName\<close> but contains it.\<close>

definition line_skipped :: "'w env \<Rightarrow> string \<Rightarrow> string \<Rightarrow> goint \<Rightarrow> bool" where
  "line_skipped e funcName filename l =
     (case sym_LineToPC e filename l of
        (pc, None, err) \<Rightarrow> True
      | (pc, Some fn, err) \<Rightarrow> Name fn \<noteq> funcName \<and> strings_Contains (Name fn) funcName)"

subsection \<open>The exit of the process, predicates on the breakpoint table\<close>

text \<open>\<^verbatim>\<open>postExit\<close>; the two channels it closes are not part of the state.\<close>

definition postExit :: "'w Process \<Rightarrow> 'w Process" where
  "postExit s = s\<lparr>exited := True\<rparr>"

text \<open>Two predicates on the breakpoint table: it holds a temporary breakpoint; every
  breakpoint is stored under its own address.\<close>

definition has_temp :: "(addr \<times> Breakpoint) list \<Rightarrow> bool" where
  "has_temp bps = list_ex (\<lambda>(a, bp). Temp bp) bps"

definition keys_are_addrs :: "(addr \<times> Breakpoint) list \<Rightarrow> bool" where
  "keys_are_addrs bps = list_all (\<lambda>(a, bp). Addr bp = a) bps"

subsection \<open>A small process for examples\<close>

text \<open>
  An environment in which every outside operation succeeds and changes nothing, a
  breakpoint size of one byte (the \<^verbatim>\<open>int3\<close> of amd64), and a process with one thread.
  The examples below change single fields of them.
\<close>

definition env0 :: "unit env" where
  "env0 = \<lparr> arch_BreakpointSize = 1, arch_PtrSize = 8, Gdead = 6,
     bp_Clear = (\<lambda>bp th w. (None, w)),
     bp_checkCondition = (\<lambda>bp th w. True),
     thread_GetG = (\<lambda>th w. Inl (OtherError 0)),
     thread_blocked = (\<lambda>th w. False),
     thread_readMemory = (\<lambda>th a n w. (replicate (nat n) 0, None)),
     thread_Location = (\<lambda>th w. Inl (OtherError 1)),
     thread_PC = (\<lambda>th w. Inr 0),
     thread_Step = (\<lambda>th s. (None, s)),
     thread_resume = (\<lambda>th s. (None, s)),
     thread_Halt = (\<lambda>th s. (None, s)),
     thread_SetCurrentBreakpoint = (\<lambda>th s. (None, s)),
     thread_setNextBreakpoints = (\<lambda>th s. (None, s)),
     parseG = (\<lambda>th a b w. Inl (OtherError 2)),
     g_ChanRecvBlocked = (\<lambda>g. False),
     g_chanRecvReturnAddr = (\<lambda>g s. Inl NullAddrError),
     rdr_AddrFor = (\<lambda>pos n. (Inr 0, pos)),
     sym_LookupFunc = (\<lambda>n. None),
     sym_PCToLine = (\<lambda>pc. ([], 0, None)),
     sym_LineToPC = (\<lambda>f l. (0, None, Some (OtherError 3))),
     sym_PCToFunc = (\<lambda>pc. None),
     setBreakpoint = (\<lambda>tid a t s. (Inl (BreakpointExistsError a), s)),
     os_trapWait = (\<lambda>pid s. (Inr (CurrentThread s), s)),
     os_requestManualStop = (\<lambda>s. (None, s)),
     os_setExtraBreakpoints = (\<lambda>s. (None, s)),
     os_exitGuard = (\<lambda>err s. (Some err, s)),
     PtraceDetach = (\<lambda>pid sig w. (None, w)),
     sys_Kill = (\<lambda>pid sig w. (None, w)) \<rparr>"

definition thread0 :: Thread where
  "thread0 = \<lparr> Id = 1, running = False, Status = None, CurrentBreakpoint = None,
     BreakpointConditionMet = False \<rparr>"

definition proc0 :: "unit Process" where
  "proc0 = \<lparr> Pid = 100, Breakpoints = [], Threads = [(1, 0)], CurrentThread = 0,
     SelectedGoroutine = None, allGCache = None, firstStart = False,
     breakpointIDCounter = 0, tempBreakpointIDCounter = 0, halt = False, exited = False,
     theap = (\<lambda>th. thread0), tracee = () \<rparr>"

text \<open>A user breakpoint and a temporary breakpoint at an address.\<close>

definition user_bp :: "addr \<Rightarrow> Breakpoint" where
  "user_bp a = \<lparr> Addr = a, ID = 1, Temp = False, Cond = - 1 \<rparr>"

definition temp_bp :: "addr \<Rightarrow> Breakpoint" where
  "temp_bp a = \<lparr> Addr = a, ID = 1, Temp = True, Cond = - 1 \<rparr>"

text \<open>Goroutines, and environments whose tracee holds two goroutines: \<^verbatim>\<open>runtime.allglen\<close>
  is at address 8 and holds 2, \<^verbatim>\<open>runtime.allgs\<close> is at address 16 and holds the pointer 64.\<close>

definition g_live :: G where
  "g_live = \<lparr> G_Id = 5, G_Status = 4,
     CurrentLoc = \<lparr> PC = 0, File = ''main.go'', Line = 10, Fn = None \<rparr>, thread = None \<rparr>"

definition g_dead :: G where
  "g_dead = \<lparr> G_Id = 6, G_Status = 6,
     CurrentLoc = \<lparr> PC = 0, File = ''main.go'', Line = 20, Fn = None \<rparr>, thread = None \<rparr>"

definition g_running :: G where
  "g_running = \<lparr> G_Id = 7, G_Status = 2,
     CurrentLoc = \<lparr> PC = 0, File = ''main.go'', Line = 30, Fn = None \<rparr>, thread = Some 0 \<rparr>"

definition env_allg :: "unit env" where
  "env_allg = env0\<lparr>
     rdr_AddrFor := (\<lambda>pos n. (Inr (if n = ''runtime.allglen'' then 8 else 16), pos)),
     thread_readMemory := (\<lambda>th a n w.
        (if a = 8 then [2, 0, 0, 0, 0, 0, 0, 0] else [64, 0, 0, 0, 0, 0, 0, 0], None)),
     parseG := (\<lambda>th a b w. Inr (if a = 64 then g_live else g_dead)) \<rparr>"


text \<open>The read of the pointer at \<^verbatim>\<open>runtime.allgs\<close> fails and hands back no bytes.\<close>

definition env_unreadable :: "unit env" where
  "env_unreadable = env_allg\<lparr>
     thread_readMemory := (\<lambda>th a n w.
        (if a = 8 then ([2, 0, 0, 0, 0, 0, 0, 0], None) else ([], Some (OtherError 7)))) \<rparr>"

text \<open>The read of the pointer at \<^verbatim>\<open>runtime.allgs\<close> fails and hands back the eight bytes
  of its buffer, all zero.\<close>

definition env_misread :: "unit env" where
  "env_misread = env_allg\<lparr>
     thread_readMemory := (\<lambda>th a n w.
        (if a = 8 then ([2, 0, 0, 0, 0, 0, 0, 0], None)
         else ([0, 0, 0, 0, 0, 0, 0, 0], Some (OtherError 7)))) \<rparr>"

text \<open>The current thread runs \<open>g_running\<close>.\<close>

definition env_running :: "unit env" where
  "env_running = env0\<lparr> thread_GetG := (\<lambda>th w. Inr g_running) \<rparr>"

text \<open>The thread of the example process runs \<open>g_live\<close> and its location can be read.\<close>

definition env_bound :: "unit env" where
  "env_bound = env_allg\<lparr>
     thread_GetG := (\<lambda>th w. Inr g_live),
     thread_Location := (\<lambda>th w. Inr \<lparr> PC = 4096, File = ''main.go'', Line = 11, Fn = None \<rparr>) \<rparr>"

definition g_bound :: G where
  "g_bound = g_live\<lparr> thread := Some 0,
     CurrentLoc := \<lparr> PC = 4096, File = ''main.go'', Line = 11, Fn = None \<rparr> \<rparr>"

text \<open>A process whose selected goroutine is bound to the current thread.\<close>

definition proc_selected :: "unit Process" where
  "proc_selected = proc0\<lparr> SelectedGoroutine := Some (g_live\<lparr>thread := Some 0\<rparr>) \<rparr>"

text \<open>
  A symbol table: \<^verbatim>\<open>main.f\<close> starts at line 10 of \<^verbatim>\<open>/src/main.go\<close>; line 11 belongs to
  a closure of it, line 12 has no code, line 13 is the first line of \<^verbatim>\<open>main.f\<close> proper,
  and \<^verbatim>\<open>main.g\<close> starts at line 14.
\<close>

definition fn_f :: Func where
  "fn_f = \<lparr> Name = ''main.f'', Entry = 4096 \<rparr>"

definition fn_f_closure :: Func where
  "fn_f_closure = \<lparr> Name = ''main.f.func1'', Entry = 8192 \<rparr>"

definition fn_g :: Func where
  "fn_g = \<lparr> Name = ''main.g'', Entry = 12288 \<rparr>"

definition env_sym :: "unit env" where
  "env_sym = env0\<lparr>
     sym_LookupFunc := (\<lambda>n. if n = ''main.f'' then Some fn_f else None),
     sym_PCToLine := (\<lambda>pc. (''/src/main.go'', 10, Some fn_f)),
     sym_LineToPC := (\<lambda>file l.
        if l = 11 then (8192, Some fn_f_closure, None)
        else if l = 13 then (4112, Some fn_f, None)
        else if l = 14 then (12288, Some fn_g, None)
        else (0, None, Some (OtherError 3))) \<rparr>"

text \<open>\<^verbatim>\<open>main.f\<close> is one line long: \<^verbatim>\<open>main.g\<close> starts at line 11.\<close>

definition env_sym_short :: "unit env" where
  "env_sym_short = env_sym\<lparr>
     sym_LineToPC := (\<lambda>file l.
        if l = 11 then (12288, Some fn_g, None) else (0, None, Some (OtherError 3))) \<rparr>"

text \<open>The entry of \<^verbatim>\<open>main.f\<close> is at the last line number an \<^verbatim>\<open>int\<close> holds, \<open>2 ^ 63 - 1\<close>; the
  symbol table knows code of \<^verbatim>\<open>main.f\<close> at the line \<open>- 2 ^ 63\<close>, which is \<open>2 ^ 63 - 1 + 1\<close>,
  and at the line \<open>- 2\<close>, which is \<open>2 ^ 63 - 1 + (2 ^ 63 - 1)\<close>.\<close>

definition env_sym_last :: "unit env" where
  "env_sym_last = env_sym\<lparr>
     sym_PCToLine := (\<lambda>pc. (''/src/main.go'', 9223372036854775807, Some fn_f)),
     sym_LineToPC := (\<lambda>file l.
        if l = - 9223372036854775808 \<or> l = - 2 then (4112, Some fn_f, None)
        else (0, None, Some (OtherError 3))) \<rparr>"

text \<open>\<^verbatim>\<open>main.f\<close> is written in assembly.\<close>

definition env_sym_asm :: "unit env" where
  "env_sym_asm = env_sym\<lparr> sym_PCToLine := (\<lambda>pc. (''/src/f_amd64.s'', 10, Some fn_f)) \<rparr>"

text \<open>
  Environments for \<^verbatim>\<open>Continue\<close> and \<^verbatim>\<open>Next\<close>. In \<open>env_stop\<close> the wait returns the
  current thread with no breakpoint, as a manual stop does. In \<open>env_hit bp\<close> the wait
  returns thread 0 stopped on \<open>bp\<close>. In \<open>env_miss\<close> the condition of the breakpoint hit
  is false. In the last three the thread runs \<open>g_running\<close> and \<^verbatim>\<open>setNextBreakpoints\<close>
  sets a temporary breakpoint at 32; it fails after that in \<open>env_next_fails\<close>, and the
  wait stops on that breakpoint in \<open>env_next_hit\<close>.
\<close>

definition env_stop :: "unit env" where
  "env_stop = env0\<lparr>
     thread_Location := (\<lambda>th w. Inr \<lparr> PC = 4096, File = ''main.go'', Line = 11, Fn = None \<rparr>) \<rparr>"



definition env_next :: "unit env" where
  "env_next = env_stop\<lparr>
     thread_GetG := (\<lambda>th w. Inr g_running),
     thread_setNextBreakpoints := (\<lambda>th s.
        (None, s\<lparr>Breakpoints := Breakpoints s @ [(32, temp_bp 32)]\<rparr>)) \<rparr>"

definition env_next_fails :: "unit env" where
  "env_next_fails = env_next\<lparr>
     thread_setNextBreakpoints := (\<lambda>th s.
        (Some (OtherError 9), s\<lparr>Breakpoints := Breakpoints s @ [(32, temp_bp 32)]\<rparr>)) \<rparr>"

definition env_next_hit :: "unit env" where
  "env_next_hit = env_next\<lparr>
     os_trapWait := (\<lambda>pid s.
        (Inr 0, s\<lparr>theap := (theap s)(0 := (theap s 0)\<lparr>CurrentBreakpoint :=
                       Some (temp_bp 32\<lparr>Cond := 7\<rparr>)\<rparr>)\<rparr>)) \<rparr>"







text \<open>The state \<^verbatim>\<open>Next\<close> returns in, in \<open>env_next\<close>.\<close>

definition proc_next :: "unit Process" where
  "proc_next = proc0\<lparr> Breakpoints := [(32, temp_bp 32\<lparr>Cond := 7\<rparr>)],
      SelectedGoroutine := Some g_running \<rparr>"


definition unlatched :: "bool \<Rightarrow> tref \<Rightarrow> Thread" where
  "unlatched met = (\<lambda>th. thread0)(0 := thread0\<lparr>BreakpointConditionMet := met\<rparr>)"

section \<open>Properties\<close>

subsection \<open>FindBreakpoint\<close>

text \<open>
  C4, first part. \<^verbatim>\<open>FindBreakpoint(pc)\<close> returns the entry at \<open>pc - BreakpointSize\<close> when
  there is one, otherwise the entry at \<open>pc\<close>, otherwise nothing. Second part, as the
  code has it: when the table has an entry at \<open>pc\<close> and none at \<open>pc - BreakpointSize\<close>
  (\<open>pc\<close> is the address of a breakpoint and no other breakpoint sits one trap before
  it), \<^verbatim>\<open>FindBreakpoint(pc)\<close> and \<^verbatim>\<open>FindBreakpoint(pc + BreakpointSize)\<close> are that entry.
\<close>

theorem FindBreakpoint_resolves:
  "(map_of (Breakpoints s) (pc - BreakpointSize e) = Some bp \<longrightarrow> FindBreakpoint e pc s = Some bp)
   \<and> (map_of (Breakpoints s) (pc - BreakpointSize e) = None \<longrightarrow>
        FindBreakpoint e pc s = map_of (Breakpoints s) pc)
   \<and> (map_of (Breakpoints s) (pc - BreakpointSize e) = None \<longrightarrow>
        map_of (Breakpoints s) pc = Some bp' \<longrightarrow>
        FindBreakpoint e pc s = Some bp' \<and> FindBreakpoint e (pc + BreakpointSize e) s = Some bp')"
  by (simp add: FindBreakpoint_def split: option.splits)

theorem FindBreakpoint_resolves_witness:
  "map_of (Breakpoints (proc0\<lparr>Breakpoints := [(16, user_bp 16), (32, user_bp 32)]\<rparr>))
      (17 - BreakpointSize env0) = Some (user_bp 16)
   \<and> FindBreakpoint env0 17 (proc0\<lparr>Breakpoints := [(16, user_bp 16), (32, user_bp 32)]\<rparr>)
      = Some (user_bp 16)
   \<and> map_of (Breakpoints (proc0\<lparr>Breakpoints := [(16, user_bp 16), (32, user_bp 32)]\<rparr>))
      (32 - BreakpointSize env0) = None
   \<and> map_of (Breakpoints (proc0\<lparr>Breakpoints := [(16, user_bp 16), (32, user_bp 32)]\<rparr>)) 32
      = Some (user_bp 32)
   \<and> FindBreakpoint env0 32 (proc0\<lparr>Breakpoints := [(16, user_bp 16), (32, user_bp 32)]\<rparr>)
      = Some (user_bp 32)
   \<and> FindBreakpoint env0 (32 + BreakpointSize env0)
        (proc0\<lparr>Breakpoints := [(16, user_bp 16), (32, user_bp 32)]\<rparr>)
      = Some (user_bp 32)"
  using FindBreakpoint_resolves
    [of "proc0\<lparr>Breakpoints := [(16, user_bp 16), (32, user_bp 32)]\<rparr>" 17 env0 "user_bp 16"]
    FindBreakpoint_resolves
    [of "proc0\<lparr>Breakpoints := [(16, user_bp 16), (32, user_bp 32)]\<rparr>" 32 env0 _ "user_bp 32"]
  by (simp add: BreakpointSize_def env0_def)

text \<open>
  The second part of C4 as the spec states it, for every \<open>pc\<close>, fails one trap after a
  breakpoint: with a single breakpoint at 16, \<^verbatim>\<open>FindBreakpoint(17)\<close> is that breakpoint
  and \<^verbatim>\<open>FindBreakpoint(18)\<close> finds nothing.
\<close>

theorem FindBreakpoint_same_entry_counterexample:
  "FindBreakpoint env0 17 (proc0\<lparr>Breakpoints := [(16, user_bp 16)]\<rparr>)
     \<noteq> FindBreakpoint env0 (17 + BreakpointSize env0) (proc0\<lparr>Breakpoints := [(16, user_bp 16)]\<rparr>)"
  by (simp add: FindBreakpoint_def BreakpointSize_def env0_def)

subsection \<open>ClearBreakpoint\<close>

text \<open>
  C3 at the address one trap after a breakpoint. The table holds one breakpoint, at 16;
  \<^verbatim>\<open>ClearBreakpoint(17)\<close> finds it, uninstalls it and returns it without an error, but
  \<^verbatim>\<open>delete(dbp.Breakpoints, addr)\<close> removes the key 17, and the breakpoint stays in the
  table at 16.
\<close>

theorem ClearBreakpoint_post_trap_keeps_entry:
  "fst (ClearBreakpoint env0 17 (proc0\<lparr>Breakpoints := [(16, user_bp 16)]\<rparr>)) = Inr (user_bp 16)
   \<and> map_of (Breakpoints (snd (ClearBreakpoint env0 17 (proc0\<lparr>Breakpoints := [(16, user_bp 16)]\<rparr>))))
        16 = Some (user_bp 16)"
  by (simp add: ClearBreakpoint_def FindBreakpoint_def BreakpointSize_def env0_def)

subsection \<open>Next\<close>

text \<open>
  C6. If the table holds a temporary breakpoint when \<^verbatim>\<open>Next\<close> is called, \<^verbatim>\<open>Next\<close> returns
  the error "next while nexting", and the whole state of the process, with the
  breakpoint table, the threads and the tracee, is the state it was called in.
\<close>

theorem Next_while_nexting:
  assumes "map_of (Breakpoints s) a = Some bp" and "Temp bp"
  shows "Next e s = Some (Some NextWhileNexting, s)"
proof -
  have "(a, bp) \<in> set (Breakpoints s)"
    using assms(1) by (rule map_of_SomeD)
  then have "list_ex (\<lambda>(i, bp). Temp bp) (Breakpoints s)"
    using assms(2) by (auto simp: list_ex_iff)
  then show ?thesis
    by (simp add: Next_def)
qed

theorem Next_while_nexting_witness:
  "map_of (Breakpoints (proc0\<lparr>Breakpoints := [(16, user_bp 16), (32, temp_bp 32)]\<rparr>)) 32
     = Some (temp_bp 32)
   \<and> Temp (temp_bp 32)
   \<and> Next env0 (proc0\<lparr>Breakpoints := [(16, user_bp 16), (32, temp_bp 32)]\<rparr>)
     = Some (Some NextWhileNexting, proc0\<lparr>Breakpoints := [(16, user_bp 16), (32, temp_bp 32)]\<rparr>)"
proof -
  have h1: "map_of (Breakpoints (proc0\<lparr>Breakpoints := [(16, user_bp 16), (32, temp_bp 32)]\<rparr>)) 32
              = Some (temp_bp 32)"
    by simp
  have h2: "Temp (temp_bp 32)"
    by (simp add: temp_bp_def)
  show ?thesis
    using h1 h2 Next_while_nexting [OF h1 h2, of env0] by simp
qed

subsection \<open>GoroutinesInfo\<close>






text \<open>The straight-line part of \<^verbatim>\<open>GoroutinesInfo\<close>, once the cache is known to be empty
  and each step to its result.\<close>

lemma GoroutinesInfo_steps:
  assumes "allGCache s = None"
    and "rdr_AddrFor e 0 ''runtime.allglen'' = (Inr a, pos)"
    and "thread_readMemory e (cur s) a 8 (tracee s) = (allglenBytes, None)"
    and "LittleEndian_Uint64 allglenBytes = Inr allglen"
    and "allgentryaddr_of e = Inr allgentryaddr"
    and "thread_readMemory e (cur s) allgentryaddr (arch_PtrSize e) (tracee s) = (faddr, err)"
  shows "GoroutinesInfo e s =
           (case LittleEndian_Uint64 faddr of
              Inl err' \<Rightarrow> (Inl err', s)
            | Inr allgptr \<Rightarrow>
                (case allg_loop e s (threadg_loop e s (Threads s) Map.empty) allgptr allglen 0 None of
                   Inl err' \<Rightarrow> (Inl err', s)
                 | Inr allg \<Rightarrow> (Inr allg, s\<lparr>allGCache := allg\<rparr>)))"
  using assms by (simp add: GoroutinesInfo_def)



lemma GoroutinesInfo_state:
  "snd (GoroutinesInfo e s) = s\<lparr>allGCache := allGCache (snd (GoroutinesInfo e s))\<rparr>"
  unfolding GoroutinesInfo_def Let_def
  by (simp split: option.split prod.split sum.split)

lemma GoroutinesInfo_allg:
  "GoroutinesInfo env_allg proc0 = (Inr (Some [g_live]), proc0\<lparr>allGCache := Some [g_live]\<rparr>)"
  by (simp add: GoroutinesInfo_def allg_loop.simps env_allg_def env0_def proc0_def LittleEndian_Uint64_def
      allgentryaddr_of_def cur_def parse_and_attach_def append_slice_def g_live_def g_dead_def)





lemma GoroutinesInfo_misread:
  "GoroutinesInfo env_misread proc0 = (Inr None, proc0)"
  by (simp add: GoroutinesInfo_def allg_loop.simps env_misread_def env_allg_def env0_def proc0_def
      LittleEndian_Uint64_def allgentryaddr_of_def cur_def parse_and_attach_def
      append_slice_def g_dead_def)

text \<open>
  C9. \<^verbatim>\<open>GoroutinesInfo\<close> reads the pointer at \<^verbatim>\<open>runtime.allgs\<close> and decodes the bytes it
  got without looking at the error of the read. Whatever that error is, \<open>err\<close> below,
  \<^verbatim>\<open>nil\<close> or not:
  with fewer than eight bytes (a short read, or a failed read that hands back the
  \<^verbatim>\<open>nil\<close> slice) the decode panics and \<^verbatim>\<open>GoroutinesInfo\<close> ends in the panic, not in an error
  it returns; with eight bytes or more (also those of a failed read) the decode gives
  the pointer and the enumeration goes on with it, the error of the read lost.
\<close>

theorem GoroutinesInfo_allgs_read_unchecked:
  assumes "allGCache s = None"
    and "rdr_AddrFor e 0 ''runtime.allglen'' = (Inr a, pos)"
    and "thread_readMemory e (cur s) a 8 (tracee s) = (allglenBytes, None)"
    and "LittleEndian_Uint64 allglenBytes = Inr allglen"
    and "allgentryaddr_of e = Inr allgentryaddr"
    and "thread_readMemory e (cur s) allgentryaddr (arch_PtrSize e) (tracee s) = (faddr, err)"
  shows "(length faddr < 8 \<longrightarrow> GoroutinesInfo e s = (Inl Panic, s))
         \<and> (8 \<le> length faddr \<longrightarrow>
              (\<exists>allgptr. LittleEndian_Uint64 faddr = Inr allgptr
                 \<and> GoroutinesInfo e s =
                     (case allg_loop e s (threadg_loop e s (Threads s) Map.empty)
                             allgptr allglen 0 None of
                        Inl err' \<Rightarrow> (Inl err', s)
                      | Inr allg \<Rightarrow> (Inr allg, s\<lparr>allGCache := allg\<rparr>))))"
proof -
  note steps = GoroutinesInfo_steps [OF assms]
  have short: "length faddr < 8 \<Longrightarrow> GoroutinesInfo e s = (Inl Panic, s)"
    using steps by (simp add: LittleEndian_Uint64_def)
  have long: "8 \<le> length faddr \<Longrightarrow> \<exists>allgptr. LittleEndian_Uint64 faddr = Inr allgptr"
    by (simp add: LittleEndian_Uint64_def)
  show ?thesis
    using short long steps by auto
qed

theorem GoroutinesInfo_allgs_read_unchecked_witness:
  "thread_readMemory env_unreadable (cur proc0) 16 (arch_PtrSize env_unreadable) (tracee proc0)
     = ([], Some (OtherError 7))
   \<and> GoroutinesInfo env_unreadable proc0 = (Inl Panic, proc0)
   \<and> thread_readMemory env_allg (cur proc0) 16 (arch_PtrSize env_allg) (tracee proc0)
     = ([64, 0, 0, 0, 0, 0, 0, 0], None)
   \<and> GoroutinesInfo env_allg proc0 = (Inr (Some [g_live]), proc0\<lparr>allGCache := Some [g_live]\<rparr>)
   \<and> thread_readMemory env_misread (cur proc0) 16 (arch_PtrSize env_misread) (tracee proc0)
     = ([0, 0, 0, 0, 0, 0, 0, 0], Some (OtherError 7))
   \<and> (\<exists>allgptr. LittleEndian_Uint64 [0, 0, 0, 0, 0, 0, 0, 0] = Inr allgptr
         \<and> GoroutinesInfo env_misread proc0 =
             (case allg_loop env_misread proc0
                     (threadg_loop env_misread proc0 (Threads proc0) Map.empty) allgptr 2 0 None of
                Inl err' \<Rightarrow> (Inl err', proc0)
              | Inr allg \<Rightarrow> (Inr allg, proc0\<lparr>allGCache := allg\<rparr>)))"
proof -
  have c: "allGCache proc0 = None"
    by (simp add: proc0_def)
  have a3: "rdr_AddrFor env_misread 0 ''runtime.allglen'' = (Inr 8, 0)"
    by (simp add: env_misread_def env_allg_def env0_def)
  have b3: "thread_readMemory env_misread (cur proc0) 8 8 (tracee proc0)
              = ([2, 0, 0, 0, 0, 0, 0, 0], None)"
    by (simp add: env_misread_def env_allg_def env0_def)
  have e3: "allgentryaddr_of env_misread = Inr 16"
    by (simp add: allgentryaddr_of_def env_misread_def env_allg_def env0_def)
  have f3: "thread_readMemory env_misread (cur proc0) 16 (arch_PtrSize env_misread)
              (tracee proc0) = ([0, 0, 0, 0, 0, 0, 0, 0], Some (OtherError 7))"
    by (simp add: env_misread_def env_allg_def env0_def)
  have a1: "rdr_AddrFor env_unreadable 0 ''runtime.allglen'' = (Inr 8, 0)"
    by (simp add: env_unreadable_def env_allg_def env0_def)
  have b1: "thread_readMemory env_unreadable (cur proc0) 8 8 (tracee proc0)
              = ([2, 0, 0, 0, 0, 0, 0, 0], None)"
    by (simp add: env_unreadable_def env_allg_def env0_def)
  have n: "LittleEndian_Uint64 [2, 0, 0, 0, 0, 0, 0, 0] = Inr 2"
    by (simp add: LittleEndian_Uint64_def)
  have e1: "allgentryaddr_of env_unreadable = Inr 16"
    by (simp add: allgentryaddr_of_def env_unreadable_def env_allg_def env0_def)
  have f1: "thread_readMemory env_unreadable (cur proc0) 16 (arch_PtrSize env_unreadable)
              (tracee proc0) = ([], Some (OtherError 7))"
    by (simp add: env_unreadable_def env_allg_def env0_def)
  have a2: "rdr_AddrFor env_allg 0 ''runtime.allglen'' = (Inr 8, 0)"
    by (simp add: env_allg_def env0_def)
  have b2: "thread_readMemory env_allg (cur proc0) 8 8 (tracee proc0)
              = ([2, 0, 0, 0, 0, 0, 0, 0], None)"
    by (simp add: env_allg_def env0_def)
  have e2: "allgentryaddr_of env_allg = Inr 16"
    by (simp add: allgentryaddr_of_def env_allg_def env0_def)
  have f2: "thread_readMemory env_allg (cur proc0) 16 (arch_PtrSize env_allg) (tracee proc0)
              = ([64, 0, 0, 0, 0, 0, 0, 0], None)"
    by (simp add: env_allg_def env0_def)
  have third: "\<exists>allgptr. LittleEndian_Uint64 [0, 0, 0, 0, 0, 0, 0, 0] = Inr allgptr
         \<and> GoroutinesInfo env_misread proc0 =
             (case allg_loop env_misread proc0
                     (threadg_loop env_misread proc0 (Threads proc0) Map.empty) allgptr 2 0 None of
                Inl err' \<Rightarrow> (Inl err', proc0)
              | Inr allg \<Rightarrow> (Inr allg, proc0\<lparr>allGCache := allg\<rparr>))"
    using GoroutinesInfo_allgs_read_unchecked [OF c a3 b3 n e3 f3] by simp
  show ?thesis
    using GoroutinesInfo_allgs_read_unchecked [OF c a1 b1 n e1 f1]
      GoroutinesInfo_allgs_read_unchecked [OF c a2 b2 n e2 f2] f1 f2 f3 third GoroutinesInfo_allg
    by simp
qed

text \<open>
  C9, the failed read that hands back eight bytes: the read of the pointer at
  \<^verbatim>\<open>runtime.allgs\<close> returns an error, and \<^verbatim>\<open>GoroutinesInfo\<close> neither panics nor returns an
  error: it decodes the eight bytes, enumerates from the address they give and returns
  its result.
\<close>

theorem GoroutinesInfo_failed_read_counterexample:
  "snd (thread_readMemory env_misread (cur proc0) 16 (arch_PtrSize env_misread) (tracee proc0))
     = Some (OtherError 7)
   \<and> GoroutinesInfo env_misread proc0 = (Inr None, proc0)
   \<and> GoroutinesInfo env_misread proc0 \<noteq> (Inl Panic, proc0)"
  using GoroutinesInfo_misread by (simp add: env_misread_def env_allg_def env0_def)

subsection \<open>SwitchGoroutine\<close>

lemma FindGoroutine_state:
  "snd (FindGoroutine e gid s) = s\<lparr>allGCache := allGCache (snd (FindGoroutine e gid s))\<rparr>"
proof (cases "gid = - 1")
  case True
  then show ?thesis by (simp add: FindGoroutine_def)
next
  case False
  have "snd (FindGoroutine e gid s) = snd (GoroutinesInfo e s)"
    using False by (simp add: FindGoroutine_def split: prod.split sum.split option.split)
  then show ?thesis
    using GoroutinesInfo_state [of e s] by simp
qed

text \<open>
  C5, as the code has it. The goroutine id \<open>-1\<close> resolves to the selected goroutine.
  When that is \<^verbatim>\<open>nil\<close>, \<^verbatim>\<open>SwitchGoroutine(-1)\<close> changes nothing. For a resolved goroutine,
  of id \<open>-1\<close> or not: bound to a thread, \<^verbatim>\<open>SwitchGoroutine\<close> is \<^verbatim>\<open>SwitchThread\<close> on the id of
  that thread; with no thread, it sets \<^verbatim>\<open>SelectedGoroutine\<close> to the goroutine and leaves
  \<^verbatim>\<open>CurrentThread\<close>, the thread table and the thread objects as they were.
\<close>

theorem SwitchGoroutine_cases:
  "FindGoroutine e (- 1) s = (Inr (SelectedGoroutine s), s)
   \<and> (SelectedGoroutine s = None \<longrightarrow> SwitchGoroutine e (- 1) s = (None, s))
   \<and> (FindGoroutine e gid s = (Inr (Some g), s') \<and> thread g = Some th \<longrightarrow>
        SwitchGoroutine e gid s = SwitchThread e (Id (theap s' th)) s')
   \<and> (FindGoroutine e gid s = (Inr (Some g), s') \<and> thread g = None \<longrightarrow>
        SwitchGoroutine e gid s = (None, s'\<lparr>SelectedGoroutine := Some g\<rparr>)
        \<and> SelectedGoroutine (snd (SwitchGoroutine e gid s)) = Some g
        \<and> CurrentThread (snd (SwitchGoroutine e gid s)) = CurrentThread s
        \<and> theap (snd (SwitchGoroutine e gid s)) = theap s
        \<and> Threads (snd (SwitchGoroutine e gid s)) = Threads s)"
proof -
  have frame: "FindGoroutine e gid s = (Inr (Some g), s') \<Longrightarrow>
                 CurrentThread s' = CurrentThread s \<and> theap s' = theap s \<and> Threads s' = Threads s"
  proof -
    assume a: "FindGoroutine e gid s = (Inr (Some g), s')"
    have "s' = s\<lparr>allGCache := allGCache s'\<rparr>"
      using FindGoroutine_state [of e gid s] a by simp
    then have "CurrentThread s' = CurrentThread (s\<lparr>allGCache := allGCache s'\<rparr>)"
      "theap s' = theap (s\<lparr>allGCache := allGCache s'\<rparr>)"
      "Threads s' = Threads (s\<lparr>allGCache := allGCache s'\<rparr>)"
      by simp_all
    then show ?thesis by simp
  qed
  show ?thesis
    using frame by (simp add: SwitchGoroutine_def FindGoroutine_def)
qed

lemma GoroutinesInfo_bound:
  "GoroutinesInfo env_bound proc0 = (Inr (Some [g_bound]), proc0\<lparr>allGCache := Some [g_bound]\<rparr>)"
  by (simp add: GoroutinesInfo_def allg_loop.simps env_bound_def env_allg_def env0_def proc0_def
      LittleEndian_Uint64_def allgentryaddr_of_def cur_def parse_and_attach_def append_slice_def
      g_bound_def g_live_def g_dead_def)

theorem SwitchGoroutine_cases_witness:
  "SelectedGoroutine proc0 = None
   \<and> SwitchGoroutine env0 (- 1) proc0 = (None, proc0)
   \<and> FindGoroutine env_bound 5 proc0 = (Inr (Some g_bound), proc0\<lparr>allGCache := Some [g_bound]\<rparr>)
   \<and> thread g_bound = Some 0
   \<and> SwitchGoroutine env_bound 5 proc0
       = SwitchThread env_bound 1 (proc0\<lparr>allGCache := Some [g_bound]\<rparr>)
   \<and> FindGoroutine env_allg 5 proc0 = (Inr (Some g_live), proc0\<lparr>allGCache := Some [g_live]\<rparr>)
   \<and> thread g_live = None
   \<and> SwitchGoroutine env_allg 5 proc0
       = (None, proc0\<lparr>allGCache := Some [g_live], SelectedGoroutine := Some g_live\<rparr>)
   \<and> CurrentThread (snd (SwitchGoroutine env_allg 5 proc0)) = CurrentThread proc0"
proof -
  have sel: "SelectedGoroutine proc0 = None"
    by (simp add: proc0_def)
  have fb: "FindGoroutine env_bound 5 proc0
              = (Inr (Some g_bound), proc0\<lparr>allGCache := Some [g_bound]\<rparr>)"
    by (simp add: FindGoroutine_def GoroutinesInfo_bound slice_elems_def g_bound_def g_live_def)
  have tb: "thread g_bound = Some 0"
    by (simp add: g_bound_def)
  have fu: "FindGoroutine env_allg 5 proc0
              = (Inr (Some g_live), proc0\<lparr>allGCache := Some [g_live]\<rparr>)"
    by (simp add: FindGoroutine_def GoroutinesInfo_allg slice_elems_def g_live_def)
  have tu: "thread g_live = None"
    by (simp add: g_live_def)
  have id0: "Id (theap (proc0\<lparr>allGCache := Some [g_bound]\<rparr>) 0) = 1"
    by (simp add: proc0_def thread0_def)
  show ?thesis
    using SwitchGoroutine_cases [of env0 proc0] sel
      SwitchGoroutine_cases [of env_bound proc0 5 g_bound "proc0\<lparr>allGCache := Some [g_bound]\<rparr>" 0]
      fb tb id0
      SwitchGoroutine_cases [of env_allg proc0 5 g_live "proc0\<lparr>allGCache := Some [g_live]\<rparr>"]
      fu tu
    by simp
qed

text \<open>
  C5 as the spec states it makes \<^verbatim>\<open>SwitchGoroutine(-1)\<close> a no-op in every state. Here a
  goroutine is selected and bound to the current thread, which by now runs another
  goroutine: \<^verbatim>\<open>SwitchGoroutine(-1)\<close> goes through \<^verbatim>\<open>SwitchThread\<close>, which reads the
  goroutine of the thread again, and the selected goroutine changes.
\<close>

theorem SwitchGoroutine_minus_one_counterexample:
  "SelectedGoroutine (snd (SwitchGoroutine env_running (- 1) proc_selected))
     \<noteq> SelectedGoroutine proc_selected"
  by (simp add: SwitchGoroutine_def FindGoroutine_def SwitchThread_def proc_selected_def proc0_def
      env_running_def env0_def g_live_def thread0_def g_running_def)

subsection \<open>FindFunctionLocation\<close>

lemma firstLine_loop_skip:
  assumes "line_skipped e funcName filename (l + 1)"
  shows "firstLine_loop e funcName filename entry l = firstLine_loop e funcName filename entry (l + 1)"
proof -
  obtain pc fn err where t: "sym_LineToPC e filename (l + 1) = (pc, fn, err)"
    by (cases "sym_LineToPC e filename (l + 1)")
  show ?thesis
  proof (cases fn)
    case None
    then show ?thesis
      using t by (simp add: firstLine_loop.simps [of e funcName filename entry l])
  next
    case (Some f)
    then have "Name f \<noteq> funcName \<and> strings_Contains (Name f) funcName"
      using assms t by (simp add: line_skipped_def)
    then show ?thesis
      using t Some by (simp add: firstLine_loop.simps [of e funcName filename entry l])
  qed
qed

lemma firstLine_loop_skips:
  "(\<And>j. 0 < j \<Longrightarrow> j \<le> k \<Longrightarrow> line_skipped e funcName filename (l + of_nat j)) \<Longrightarrow>
   firstLine_loop e funcName filename entry l
     = firstLine_loop e funcName filename entry (l + of_nat k)"
proof (induction k)
  case 0
  then show ?case by simp
next
  case (Suc k)
  have next_line: "l + of_nat (Suc k) = (l + of_nat k) + 1"
    by simp
  have "firstLine_loop e funcName filename entry l
          = firstLine_loop e funcName filename entry (l + of_nat k)"
    using Suc.IH Suc.prems by simp
  also have "\<dots> = firstLine_loop e funcName filename entry ((l + of_nat k) + 1)"
  proof (rule firstLine_loop_skip)
    show "line_skipped e funcName filename (l + of_nat k + 1)"
    proof -
      have "line_skipped e funcName filename (l + of_nat (Suc k))"
        by (rule Suc.prems) simp_all
      then show ?thesis
        by (simp only: next_line)
    qed
  qed
  finally show ?case
    by (simp only: next_line)
qed

lemma firstLine_loop_found:
  assumes "sym_LineToPC e filename (l + 1) = (pc, Some fn, err)" and "Name fn = funcName"
  shows "firstLine_loop e funcName filename entry l = Some pc"
  using assms by (simp add: firstLine_loop.simps [of e funcName filename entry l])

lemma firstLine_loop_other:
  assumes "sym_LineToPC e filename (l + 1) = (pc, Some fn, err)" and "Name fn \<noteq> funcName"
    and "\<not> strings_Contains (Name fn) funcName"
  shows "firstLine_loop e funcName filename entry l = Some entry"
  using assms by (simp add: firstLine_loop.simps [of e funcName filename entry l])

text \<open>
  C8. For a function the symbol table knows, with its entry at \<open>(filename, lineno)\<close>; line
  numbers and the offset are Go \<^verbatim>\<open>int\<close>s, 64-bit words whose addition wraps around, so
  that \<open>lineno + of_nat j\<close> is the line the loop asks for in its round \<open>j\<close> and
  \<open>lineno + lineOffset\<close> is the value of the expression \<^verbatim>\<open>lineno+lineOffset\<close>:
  \<^item> with \<^verbatim>\<open>firstLine\<close>, the result is the entry when the suffix of the file is not
    \<^verbatim>\<open>.go\<close>;
  \<^item> otherwise, with \<open>k\<close> lines after the entry line passed over (no function, or a
    function whose name only contains \<open>funcName\<close>), it is the address of the next line
    when the name of its function is \<open>funcName\<close>,
  \<^item> and the entry when that line belongs to a function whose name neither is nor
    contains \<open>funcName\<close>;
  \<^item> without \<^verbatim>\<open>firstLine\<close> and with a \<^verbatim>\<open>lineOffset\<close> positive as a signed number, it is
    what the symbol table gives for \<open>(filename, lineno + lineOffset)\<close>, the address and
    the error;
  \<^item> without \<^verbatim>\<open>firstLine\<close> and with \<^verbatim>\<open>lineOffset\<close> zero, it is the entry.
  In each case the function returns: the result is \<open>Some\<close>.
\<close>

theorem FindFunctionLocation_result:
  assumes look: "sym_LookupFunc e funcName = Some origfn"
    and line: "sym_PCToLine e (Entry origfn) = (filename, lineno, fn0)"
  shows "(filepath_Ext filename \<noteq> ''.go'' \<longrightarrow>
            FindFunctionLocation e funcName True lineOffset = Some (Entry origfn, None))
       \<and> (filepath_Ext filename = ''.go''
            \<and> (\<forall>j. 0 < j \<and> j \<le> k \<longrightarrow> line_skipped e funcName filename (lineno + of_nat j))
            \<and> sym_LineToPC e filename (lineno + of_nat k + 1) = (pc, Some fn, err)
            \<and> Name fn = funcName \<longrightarrow>
            FindFunctionLocation e funcName True lineOffset = Some (pc, None))
       \<and> (filepath_Ext filename = ''.go''
            \<and> (\<forall>j. 0 < j \<and> j \<le> k \<longrightarrow> line_skipped e funcName filename (lineno + of_nat j))
            \<and> sym_LineToPC e filename (lineno + of_nat k + 1) = (pc, Some fn, err)
            \<and> Name fn \<noteq> funcName \<and> \<not> strings_Contains (Name fn) funcName \<longrightarrow>
            FindFunctionLocation e funcName True lineOffset = Some (Entry origfn, None))
       \<and> (0 < sint lineOffset
            \<and> sym_LineToPC e filename (lineno + lineOffset) = (breakAddr, fn', err') \<longrightarrow>
            FindFunctionLocation e funcName False lineOffset = Some (breakAddr, err'))
       \<and> FindFunctionLocation e funcName False 0 = Some (Entry origfn, None)"
proof -
  have skip: "(\<forall>j. 0 < j \<and> j \<le> k \<longrightarrow> line_skipped e funcName filename (lineno + of_nat j)) \<Longrightarrow>
     firstLine_loop e funcName filename (Entry origfn) lineno
       = firstLine_loop e funcName filename (Entry origfn) (lineno + of_nat k)"
    using firstLine_loop_skips [of k e funcName filename lineno "Entry origfn"] by blast
  have found: "sym_LineToPC e filename (lineno + of_nat k + 1) = (pc, Some fn, err) \<Longrightarrow>
     Name fn = funcName \<Longrightarrow>
     firstLine_loop e funcName filename (Entry origfn) (lineno + of_nat k) = Some pc"
    by (rule firstLine_loop_found)
  have other: "sym_LineToPC e filename (lineno + of_nat k + 1) = (pc, Some fn, err) \<Longrightarrow>
     Name fn \<noteq> funcName \<Longrightarrow> \<not> strings_Contains (Name fn) funcName \<Longrightarrow>
     firstLine_loop e funcName filename (Entry origfn) (lineno + of_nat k) = Some (Entry origfn)"
    by (rule firstLine_loop_other)
  show ?thesis
    using skip found other by (simp add: FindFunctionLocation_def look line)
qed

theorem FindFunctionLocation_result_witness:
  "FindFunctionLocation env_sym_asm ''main.f'' True 0 = Some (4096, None)
   \<and> FindFunctionLocation env_sym ''main.f'' True 0 = Some (4112, None)
   \<and> FindFunctionLocation env_sym_short ''main.f'' True 0 = Some (4096, None)
   \<and> FindFunctionLocation env_sym ''main.f'' False 3 = Some (4112, None)
   \<and> FindFunctionLocation env_sym_last ''main.f'' False 9223372036854775807
        = Some (4112, None)
   \<and> FindFunctionLocation env_sym_last ''main.f'' True 0 = Some (4112, None)
   \<and> FindFunctionLocation env_sym ''main.f'' False 0 = Some (4096, None)"
proof -
  have look: "sym_LookupFunc env_sym ''main.f'' = Some fn_f"
    "sym_LookupFunc env_sym_short ''main.f'' = Some fn_f"
    "sym_LookupFunc env_sym_asm ''main.f'' = Some fn_f"
    "sym_LookupFunc env_sym_last ''main.f'' = Some fn_f"
    by (simp_all add: env_sym_def env_sym_short_def env_sym_asm_def env_sym_last_def env0_def)
  have line: "sym_PCToLine env_sym (Entry fn_f) = (''/src/main.go'', 10, Some fn_f)"
    "sym_PCToLine env_sym_short (Entry fn_f) = (''/src/main.go'', 10, Some fn_f)"
    "sym_PCToLine env_sym_asm (Entry fn_f) = (''/src/f_amd64.s'', 10, Some fn_f)"
    "sym_PCToLine env_sym_last (Entry fn_f)
       = (''/src/main.go'', 9223372036854775807, Some fn_f)"
    by (simp_all add: env_sym_def env_sym_short_def env_sym_asm_def env_sym_last_def env0_def)
  have ext: "filepath_Ext ''/src/main.go'' = ''.go''" "filepath_Ext ''/src/f_amd64.s'' \<noteq> ''.go''"
    by (simp_all add: filepath_Ext_def)
  have two: "j = 1 \<or> j = 2" if "0 < j" "j \<le> 2" for j :: nat
    using that by arith
  have skipped: "\<forall>j. 0 < j \<and> j \<le> (2::nat)
                   \<longrightarrow> line_skipped env_sym ''main.f'' ''/src/main.go'' (10 + of_nat j)"
  proof (intro allI impI)
    fix j :: nat
    assume "0 < j \<and> j \<le> 2"
    then have "j = 1 \<or> j = 2"
      using two by blast
    then show "line_skipped env_sym ''main.f'' ''/src/main.go'' (10 + of_nat j)"
      by (auto simp: line_skipped_def env_sym_def env0_def fn_f_closure_def)
  qed
  have none: "\<forall>j. 0 < j \<and> j \<le> (0::nat)
                \<longrightarrow> line_skipped env_sym_short ''main.f'' ''/src/main.go'' (10 + of_nat j)"
    "\<forall>j. 0 < j \<and> j \<le> (0::nat)
                \<longrightarrow> line_skipped env_sym_last ''main.f'' ''/src/main.go''
                      (9223372036854775807 + of_nat j)"
    by simp_all
  have l13: "sym_LineToPC env_sym ''/src/main.go'' (10 + of_nat 2 + 1) = (4112, Some fn_f, None)"
    "sym_LineToPC env_sym ''/src/main.go'' (10 + 3) = (4112, Some fn_f, None)"
    by (simp_all add: env_sym_def env0_def)
  have l11: "sym_LineToPC env_sym_short ''/src/main.go'' (10 + of_nat 0 + 1)
               = (12288, Some fn_g, None)"
    by (simp add: env_sym_short_def env_sym_def env0_def)
  have wrap: "sym_LineToPC env_sym_last ''/src/main.go''
                (9223372036854775807 + 9223372036854775807) = (4112, Some fn_f, None)"
    "sym_LineToPC env_sym_last ''/src/main.go'' (9223372036854775807 + of_nat 0 + 1)
       = (4112, Some fn_f, None)"
    by (simp_all add: env_sym_last_def env_sym_def env0_def)
  have pos: "0 < sint (3 :: goint)" "0 < sint (9223372036854775807 :: goint)"
    by simp_all
  have names: "Name fn_f = ''main.f''" "Name fn_g \<noteq> ''main.f''"
    "\<not> strings_Contains (Name fn_g) ''main.f''" "Entry fn_f = 4096"
    by (simp_all add: fn_f_def fn_g_def)
  have asm: "FindFunctionLocation env_sym_asm ''main.f'' True 0 = Some (4096, None)"
    using FindFunctionLocation_result [OF look(3) line(3), where lineOffset = 0] ext(2) names
    by simp
  have first: "FindFunctionLocation env_sym ''main.f'' True 0 = Some (4112, None)"
    using FindFunctionLocation_result [OF look(1) line(1), where k = 2 and pc = 4112
        and fn = fn_f and err = None and lineOffset = 0] ext(1) skipped l13(1) names
    by simp
  have short: "FindFunctionLocation env_sym_short ''main.f'' True 0 = Some (4096, None)"
    using FindFunctionLocation_result [OF look(2) line(2), where k = 0 and pc = 12288
        and fn = fn_g and err = None and lineOffset = 0] ext(1) none(1) l11 names
    by simp
  have offset: "FindFunctionLocation env_sym ''main.f'' False 3 = Some (4112, None)"
    using FindFunctionLocation_result [OF look(1) line(1), where lineOffset = 3
        and breakAddr = 4112 and fn' = "Some fn_f" and err' = None] l13(2) pos(1)
    by simp
  have offset_wrap: "FindFunctionLocation env_sym_last ''main.f'' False 9223372036854775807
                       = Some (4112, None)"
    using FindFunctionLocation_result [OF look(4) line(4),
        where lineOffset = 9223372036854775807
        and breakAddr = 4112 and fn' = "Some fn_f" and err' = None] wrap(1) pos(2)
    by simp
  have first_wrap: "FindFunctionLocation env_sym_last ''main.f'' True 0 = Some (4112, None)"
    using FindFunctionLocation_result [OF look(4) line(4), where k = 0 and pc = 4112
        and fn = fn_f and err = None and lineOffset = 0] ext(1) none(2) wrap(2) names
    by simp
  show ?thesis
    using asm first short offset offset_wrap first_wrap
      FindFunctionLocation_result [OF look(1) line(1), where lineOffset = 0] names
    by simp
qed

subsection \<open>Clearing temporary breakpoints\<close>

lemma ClearBreakpoint_ok:
  "ClearBreakpoint e x s = (Inr b, s1) \<Longrightarrow> Breakpoints s1 = AList.delete x (Breakpoints s)"
  by (auto simp: ClearBreakpoint_def split: option.splits prod.splits)

lemma in_delete: "(a, bp) \<in> set (AList.delete x bps) \<Longrightarrow> (a, bp) \<in> set bps \<and> a \<noteq> x"
  by (auto simp: AList.delete_eq)

lemma clearTemp_loop_no_temp:
  "clearTemp_loop e rest s = (None, s') \<Longrightarrow>
   (\<And>a bp. (a, bp) \<in> set (Breakpoints s) \<Longrightarrow> Temp bp \<Longrightarrow> (a, bp) \<in> set rest) \<Longrightarrow>
   (\<And>a bp. (a, bp) \<in> set rest \<Longrightarrow> Temp bp \<Longrightarrow> Addr bp = a) \<Longrightarrow>
   \<not> has_temp (Breakpoints s')"
proof (induction rest arbitrary: s)
  case Nil
  have "s' = s"
    using Nil.prems(1) by simp
  moreover have "\<not> Temp bp" if "(a, bp) \<in> set (Breakpoints s)" for a bp
    using Nil.prems(2) [OF that] by auto
  ultimately show ?case
    by (auto simp: has_temp_def list_ex_iff)
next
  case (Cons entry rest)
  obtain a bp where entry: "entry = (a, bp)"
    by (cases entry)
  show ?case
  proof (cases "map_of (Breakpoints s) a = None \<or> \<not> Temp bp")
    case True
    have run: "clearTemp_loop e rest s = (None, s')"
      using Cons.prems(1) True by (simp add: entry split: if_splits)
    have out: "(a, bp) \<notin> set (Breakpoints s) \<or> \<not> Temp bp"
    proof (cases "Temp bp")
      case False
      then show ?thesis by simp
    next
      case temp: True
      then have "map_of (Breakpoints s) a = None"
        using True by simp
      then have "a \<notin> fst ` set (Breakpoints s)"
        by (simp add: map_of_eq_None_iff)
      then show ?thesis
        by force
    qed
    show ?thesis
    proof (rule Cons.IH [OF run])
      fix a' bp'
      assume m: "(a', bp') \<in> set (Breakpoints s)" and t: "Temp bp'"
      have "(a', bp') \<in> set (entry # rest)"
        by (rule Cons.prems(2) [OF m t])
      moreover have "(a', bp') \<noteq> (a, bp)"
        using out m t by auto
      ultimately show "(a', bp') \<in> set rest"
        by (auto simp: entry)
    next
      fix a' bp'
      assume "(a', bp') \<in> set rest" and "Temp bp'"
      then show "Addr bp' = a'"
        using Cons.prems(3) [of a' bp'] by simp
    qed
  next
    case False
    then have temp: "Temp bp" and present: "map_of (Breakpoints s) a \<noteq> None"
      by simp_all
    have addr: "Addr bp = a"
      using Cons.prems(3) [of a bp] temp by (simp add: entry)
    obtain r s1 where c: "ClearBreakpoint e a s = (r, s1)"
      by (cases "ClearBreakpoint e a s")
    have step: "(case r of Inl err \<Rightarrow> (Some err, s1) | Inr b \<Rightarrow> clearTemp_loop e rest s1) = (None, s')"
      using Cons.prems(1) temp present by (simp add: entry addr c)
    obtain b where r: "r = Inr b"
      using step by (cases r) simp_all
    have run: "clearTemp_loop e rest s1 = (None, s')"
      using step r by simp
    have del: "Breakpoints s1 = AList.delete a (Breakpoints s)"
      by (rule ClearBreakpoint_ok [of e a s b s1]) (simp add: c r)
    show ?thesis
    proof (rule Cons.IH [OF run])
      fix a' bp'
      assume m1: "(a', bp') \<in> set (Breakpoints s1)" and t: "Temp bp'"
      have m: "(a', bp') \<in> set (Breakpoints s)" and ne: "a' \<noteq> a"
        using in_delete [of a' bp' a "Breakpoints s"] m1 by (simp_all add: del)
      have "(a', bp') \<in> set (entry # rest)"
        by (rule Cons.prems(2) [OF m t])
      then show "(a', bp') \<in> set rest"
        using ne by (simp add: entry)
    next
      fix a' bp'
      assume "(a', bp') \<in> set rest" and "Temp bp'"
      then show "Addr bp' = a'"
        using Cons.prems(3) [of a' bp'] by simp
    qed
  qed
qed


lemma clearTempBreakpoints_no_temp:
  assumes "clearTempBreakpoints e s = (None, s')" and "keys_are_addrs (Breakpoints s)"
  shows "\<not> has_temp (Breakpoints s')"
proof -
  obtain r s1 where l: "clearTemp_loop e (Breakpoints s) s = (r, s1)"
    by (cases "clearTemp_loop e (Breakpoints s) s")
  then have r: "r = None" and s': "Breakpoints s' = Breakpoints s1"
    using assms(1) by (auto simp: clearTempBreakpoints_def split: option.splits)
  have "\<not> has_temp (Breakpoints s1)"
  proof (rule clearTemp_loop_no_temp)
    show "clearTemp_loop e (Breakpoints s) s = (None, s1)" using l r by simp
  next
    fix a bp assume "(a, bp) \<in> set (Breakpoints s)" "Temp bp"
    then show "(a, bp) \<in> set (Breakpoints s)" by simp
  next
    fix a bp assume "(a, bp) \<in> set (Breakpoints s)" "Temp bp"
    then show "Addr bp = a"
      using assms(2) by (auto simp: keys_are_addrs_def list_all_iff)
  qed
  then show ?thesis using s' by simp
qed



subsection \<open>Continue\<close>

text \<open>A result of \<^verbatim>\<open>Continue\<close> is the result of a last pass of its loop.\<close>

lemma Continue_last_pass:
  assumes "Continue e s = Some r"
  shows "\<exists>s0. Continue_body e s0 = Inl r"
proof (rule Continue.raw_induct
    [where P = "\<lambda>e s r. \<exists>s0. Continue_body e s0 = Inl r" and e = e and s = s and y = r])
  fix C :: "'a env \<Rightarrow> 'a Process \<Rightarrow> (error option \<times> 'a Process) option"
    and e s r
  assume IH: "\<And>e s r. C e s = Some r \<Longrightarrow> \<exists>s0. Continue_body e s0 = Inl r"
    and step: "(case Continue_body e s of Inl r \<Rightarrow> Some r | Inr s' \<Rightarrow> C e s') = Some r"
  show "\<exists>s0. Continue_body e s0 = Inl r"
  proof (cases "Continue_body e s")
    case (Inl r')
    then show ?thesis using step by auto
  next
    case (Inr s1)
    then show ?thesis using step IH by simp
  qed
next
  show "Continue e s = Some r" by (rule assms)
qed

lemma Continue_body_nil:
  assumes "Continue_body e s0 = Inl (None, s')"
  shows "\<exists>s1 s2. continueOnce e s0 = (None, s1) \<and> runBreakpointConditions e s1 = (None, s2)
           \<and> (onTriggeredBreakpoint (cur s2) \<and> \<not> onTriggeredTempBreakpoint (cur s2) \<and> s' = s2
               \<or> onTriggeredBreakpoint (cur s2) \<and> onTriggeredTempBreakpoint (cur s2)
                   \<and> clearTempBreakpoints e s2 = (None, s')
               \<or> \<not> onTriggeredBreakpoint (cur s2) \<and> CurrentBreakpoint (cur s1) = None \<and> s' = s2)"
proof -
  obtain r1 s1 where c: "continueOnce e s0 = (r1, s1)"
    by (cases "continueOnce e s0")
  have r1: "r1 = None"
    using assms c by (cases r1) (simp_all add: Continue_body_def)
  obtain r2 s2 where b: "runBreakpointConditions e s1 = (r2, s2)"
    by (cases "runBreakpointConditions e s1")
  have r2: "r2 = None"
    using assms c r1 b by (cases r2) (simp_all add: Continue_body_def)
  obtain r3 s3 where t: "clearTempBreakpoints e s2 = (r3, s3)"
    by (cases "clearTempBreakpoints e s2")
  have "onTriggeredBreakpoint (cur s2) \<and> \<not> onTriggeredTempBreakpoint (cur s2) \<and> s' = s2
        \<or> onTriggeredBreakpoint (cur s2) \<and> onTriggeredTempBreakpoint (cur s2)
            \<and> clearTempBreakpoints e s2 = (None, s')
        \<or> \<not> onTriggeredBreakpoint (cur s2) \<and> CurrentBreakpoint (cur s1) = None \<and> s' = s2"
    using assms c r1 b r2 t
    by (cases r3) (auto simp: Continue_body_def split: if_splits)
  then show ?thesis
    using c r1 b r2 by blast
qed






text \<open>Runs of the examples.\<close>

lemmas Continue_defs = continueOnce_def continueOnce_fn_def run_def Halt_def SwitchThread_def
  runBreakpointConditions_def Continue_body_def cur_def onTriggeredBreakpoint_def
  onTriggeredTempBreakpoint_def clearTempBreakpoints_def ClearBreakpoint_def FindBreakpoint_def
  BreakpointSize_def Let_def













lemmas Next_defs = Next_def Next_continue_def stamp_temps_def setChanRecvBreakpoints_def
  GoroutinesInfo_def allg_loop.simps LittleEndian_Uint64_def allgentryaddr_of_def slice_elems_def

lemma Continue_body_after_Next: "Continue_body env_next (proc0\<lparr>Breakpoints := [(32, temp_bp 32\<lparr>Cond := 7\<rparr>)]\<rparr>)
   = Inl (None, proc_next)"
  by (simp add: Continue_defs env_next_def fun_eq_iff
      env_stop_def env0_def proc_next_def proc0_def thread0_def temp_bp_def g_running_def)

lemma Next_manual_stop: "Next env_next proc0 = Some (None, proc_next)"
proof -
  have "Next env_next proc0 = Continue env_next (proc0\<lparr>Breakpoints := [(32, temp_bp 32\<lparr>Cond := 7\<rparr>)]\<rparr>)"
    by (simp add: Next_defs cur_def env_next_def env_stop_def env0_def proc0_def g_running_def temp_bp_def)
  then show ?thesis
    by (simp add: Continue.simps [of env_next "proc0\<lparr>Breakpoints := [(32, temp_bp 32\<lparr>Cond := 7\<rparr>)]\<rparr>"] Continue_body_after_Next)
qed





subsection \<open>Next and its temporary breakpoints\<close>

lemma Next_nil_is_Continue:
  assumes "Next e s = Some (None, s')"
  shows "\<exists>s0. Continue e s0 = Some (None, s')"
proof -
  have nt: "\<not> list_ex (\<lambda>(i, bp). Temp bp) (Breakpoints s)"
    using assms by (cases "list_ex (\<lambda>(i, bp). Temp bp) (Breakpoints s)") (simp_all add: Next_def)
  obtain g where g: "thread_GetG e (cur s) (tracee s) = Inr g"
    using assms nt by (cases "thread_GetG e (cur s) (tracee s)") (simp_all add: Next_def)
  obtain r1 s1 where c: "setChanRecvBreakpoints e s = (r1, s1)"
    by (cases "setChanRecvBreakpoints e s")
  obtain n where r1: "r1 = Inr n"
    using assms nt g c by (cases r1) (simp_all add: Next_def)
  obtain r2 s2 where n: "thread_setNextBreakpoints e (CurrentThread s1) s1 = (r2, s2)"
    by (cases "thread_setNextBreakpoints e (CurrentThread s1) s1")
  have "\<exists>ex. Next e s = Next_continue e g ex s2"
  proof (cases r2)
    case None
    then have "Next e s = Next_continue e g False s2"
      using nt g c r1 n by (simp add: Next_def)
    then show ?thesis by blast
  next
    case (Some err)
    have step: "Next e s =
       (case err of
          ThreadBlockedError \<Rightarrow> Next_continue e g False s2
        | NoReturnAddr \<Rightarrow> Next_continue e g False s2
        | GoroutineExitingError goid \<Rightarrow> Next_continue e g (goid = G_Id g) s2
        | _ \<Rightarrow> Some (Some err, snd (clearTempBreakpoints e s2)))"
      using nt g c r1 n Some by (simp add: Next_def)
    show ?thesis
      using step assms by (cases err) auto
  qed
  then obtain ex where "Continue e (if \<not> ex then s2\<lparr>Breakpoints := stamp_temps (G_Id g) (Breakpoints s2)\<rparr>
                                    else s2) = Some (None, s')"
    using assms by (auto simp: Next_continue_def)
  then show ?thesis by blast
qed

lemma Next_hard_error:
  assumes "\<not> has_temp (Breakpoints s)" and "thread_GetG e (cur s) (tracee s) = Inr g"
    and "setChanRecvBreakpoints e s = (Inr n, sa)"
    and "thread_setNextBreakpoints e (CurrentThread sa) sa = (Some err, sb)"
    and "err \<noteq> ThreadBlockedError" and "err \<noteq> NoReturnAddr"
    and "\<forall>goid. err \<noteq> GoroutineExitingError goid"
  shows "Next e s = Some (Some err, snd (clearTempBreakpoints e sb))"
proof -
  have step: "Next e s =
       (case err of
          ThreadBlockedError \<Rightarrow> Next_continue e g False sb
        | NoReturnAddr \<Rightarrow> Next_continue e g False sb
        | GoroutineExitingError goid \<Rightarrow> Next_continue e g (goid = G_Id g) sb
        | _ \<Rightarrow> Some (Some err, snd (clearTempBreakpoints e sb)))"
    using assms(1-4) by (simp add: Next_def has_temp_def)
  show ?thesis
    using step assms(5-7) by (cases err) simp_all
qed

text \<open>
  C1, as the code has it. When \<^verbatim>\<open>Next\<close> returns \<^verbatim>\<open>nil\<close> in the state \<open>s'\<close>, the last stop
  of its \<^verbatim>\<open>Continue\<close> was either on a triggered temporary breakpoint, and then
  \<^verbatim>\<open>clearTempBreakpoints\<close> ran and no temporary breakpoint is left in the table (every
  breakpoint being stored under its address); or it was on a triggered breakpoint that
  is not temporary or carried no breakpoint, and then \<open>s'\<close> is the state of that stop:
  \<^verbatim>\<open>Next\<close> returns without clearing a temporary breakpoint. And when
  \<^verbatim>\<open>setNextBreakpoints\<close> fails with an error that is not one of the three \<^verbatim>\<open>Next\<close>
  recovers from, \<^verbatim>\<open>Next\<close> returns that error after \<^verbatim>\<open>clearTempBreakpoints\<close>, which, when
  it succeeds, leaves no temporary breakpoint. And when \<^verbatim>\<open>Next\<close> has passed its guard (no
  temporary breakpoint in the table) and \<^verbatim>\<open>GetG\<close> fails, \<^verbatim>\<open>Next\<close> returns that error in the
  state it was called in: no temporary breakpoint is in the table.
\<close>

theorem Next_temps_after_return:
  "(Next e s = Some (None, s') \<longrightarrow>
      (\<exists>s0 s1 s2. continueOnce e s0 = (None, s1) \<and> runBreakpointConditions e s1 = (None, s2)
         \<and> (onTriggeredTempBreakpoint (cur s2) \<and> clearTempBreakpoints e s2 = (None, s')
               \<and> (keys_are_addrs (Breakpoints s2) \<longrightarrow> \<not> has_temp (Breakpoints s'))
             \<or> \<not> onTriggeredTempBreakpoint (cur s2) \<and> s' = s2
               \<and> (onTriggeredBreakpoint (cur s2) \<or> CurrentBreakpoint (cur s1) = None))))
   \<and> (\<not> has_temp (Breakpoints s) \<and> thread_GetG e (cur s) (tracee s) = Inr g
        \<and> setChanRecvBreakpoints e s = (Inr n, sa)
        \<and> thread_setNextBreakpoints e (CurrentThread sa) sa = (Some err, sb)
        \<and> err \<noteq> ThreadBlockedError \<and> err \<noteq> NoReturnAddr
        \<and> (\<forall>goid. err \<noteq> GoroutineExitingError goid)
        \<and> clearTempBreakpoints e sb = (None, sc) \<and> keys_are_addrs (Breakpoints sb)
       \<longrightarrow> Next e s = Some (Some err, sc) \<and> \<not> has_temp (Breakpoints sc))
   \<and> (\<not> has_temp (Breakpoints s) \<and> thread_GetG e (cur s) (tracee s) = Inl gerr
       \<longrightarrow> (\<exists>s'. Next e s = Some (Some gerr, s') \<and> s' = s \<and> \<not> has_temp (Breakpoints s')))"
proof (intro conjI impI)
  assume ret: "Next e s = Some (None, s')"
  obtain s00 where c: "Continue e s00 = Some (None, s')"
    using Next_nil_is_Continue [OF ret] by blast
  obtain s0 where body: "Continue_body e s0 = Inl (None, s')"
    using Continue_last_pass [OF c] by blast
  obtain s1 s2 where
    once: "continueOnce e s0 = (None, s1)" and conds: "runBreakpointConditions e s1 = (None, s2)"
    and how: "onTriggeredBreakpoint (cur s2) \<and> \<not> onTriggeredTempBreakpoint (cur s2) \<and> s' = s2
               \<or> onTriggeredBreakpoint (cur s2) \<and> onTriggeredTempBreakpoint (cur s2)
                   \<and> clearTempBreakpoints e s2 = (None, s')
               \<or> \<not> onTriggeredBreakpoint (cur s2) \<and> CurrentBreakpoint (cur s1) = None \<and> s' = s2"
    using Continue_body_nil [OF body] by blast
  have cleared: "clearTempBreakpoints e s2 = (None, s') \<Longrightarrow> keys_are_addrs (Breakpoints s2)
                   \<Longrightarrow> \<not> has_temp (Breakpoints s')"
    by (rule clearTempBreakpoints_no_temp)
  have sub: "\<not> onTriggeredBreakpoint (cur s2) \<Longrightarrow> \<not> onTriggeredTempBreakpoint (cur s2)"
    by (simp add: onTriggeredBreakpoint_def onTriggeredTempBreakpoint_def split: option.splits)
  have "onTriggeredTempBreakpoint (cur s2) \<and> clearTempBreakpoints e s2 = (None, s')
               \<and> (keys_are_addrs (Breakpoints s2) \<longrightarrow> \<not> has_temp (Breakpoints s'))
             \<or> \<not> onTriggeredTempBreakpoint (cur s2) \<and> s' = s2
               \<and> (onTriggeredBreakpoint (cur s2) \<or> CurrentBreakpoint (cur s1) = None)"
    using how cleared sub by auto
  then show "\<exists>s0 s1 s2. continueOnce e s0 = (None, s1) \<and> runBreakpointConditions e s1 = (None, s2)
         \<and> (onTriggeredTempBreakpoint (cur s2) \<and> clearTempBreakpoints e s2 = (None, s')
               \<and> (keys_are_addrs (Breakpoints s2) \<longrightarrow> \<not> has_temp (Breakpoints s'))
             \<or> \<not> onTriggeredTempBreakpoint (cur s2) \<and> s' = s2
               \<and> (onTriggeredBreakpoint (cur s2) \<or> CurrentBreakpoint (cur s1) = None))"
    using once conds by blast
next
  assume a: "\<not> has_temp (Breakpoints s) \<and> thread_GetG e (cur s) (tracee s) = Inr g
        \<and> setChanRecvBreakpoints e s = (Inr n, sa)
        \<and> thread_setNextBreakpoints e (CurrentThread sa) sa = (Some err, sb)
        \<and> err \<noteq> ThreadBlockedError \<and> err \<noteq> NoReturnAddr
        \<and> (\<forall>goid. err \<noteq> GoroutineExitingError goid)
        \<and> clearTempBreakpoints e sb = (None, sc) \<and> keys_are_addrs (Breakpoints sb)"
  have "Next e s = Some (Some err, snd (clearTempBreakpoints e sb))"
    using a Next_hard_error [of s e g n sa err sb] by blast
  moreover have "\<not> has_temp (Breakpoints sc)"
    using a clearTempBreakpoints_no_temp [of e sb sc] by blast
  ultimately show "Next e s = Some (Some err, sc)" and "\<not> has_temp (Breakpoints sc)"
    using a by simp_all
next
  assume b: "\<not> has_temp (Breakpoints s) \<and> thread_GetG e (cur s) (tracee s) = Inl gerr"
  then have "Next e s = Some (Some gerr, s)"
    by (simp add: Next_def has_temp_def)
  then show "\<exists>s'. Next e s = Some (Some gerr, s') \<and> s' = s \<and> \<not> has_temp (Breakpoints s')"
    using b by simp
qed

lemma Continue_body_Next_temp_hit:
  "Continue_body env_next_hit (proc0\<lparr>Breakpoints := [(32, temp_bp 32\<lparr>Cond := 7\<rparr>)]\<rparr>)
   = Inl (None, proc0\<lparr>SelectedGoroutine := Some g_running, theap := unlatched True\<rparr>)"
  by (simp add: Continue_defs env_next_hit_def env_next_def fun_eq_iff unlatched_def
      env_stop_def env0_def proc0_def thread0_def temp_bp_def g_running_def)

lemma Next_temp_hit:
  "Next env_next_hit proc0
     = Some (None, proc0\<lparr>SelectedGoroutine := Some g_running, theap := unlatched True\<rparr>)"
proof -
  have "Next env_next_hit proc0
          = Continue env_next_hit (proc0\<lparr>Breakpoints := [(32, temp_bp 32\<lparr>Cond := 7\<rparr>)]\<rparr>)"
    by (simp add: Next_defs cur_def env_next_hit_def env_next_def env_stop_def env0_def proc0_def
        g_running_def temp_bp_def)
  then show ?thesis
    by (simp add: Continue.simps
          [of env_next_hit "proc0\<lparr>Breakpoints := [(32, temp_bp 32\<lparr>Cond := 7\<rparr>)]\<rparr>"] Continue_body_Next_temp_hit)
qed

theorem Next_temps_after_return_witness:
  "Next env_next_hit proc0
     = Some (None, proc0\<lparr>SelectedGoroutine := Some g_running, theap := unlatched True\<rparr>)
   \<and> \<not> has_temp (Breakpoints (proc0\<lparr>SelectedGoroutine := Some g_running, theap := unlatched True\<rparr>))
   \<and> \<not> has_temp (Breakpoints proc0)
   \<and> thread_setNextBreakpoints env_next_fails (CurrentThread proc0) proc0
       = (Some (OtherError 9), proc0\<lparr>Breakpoints := [(32, temp_bp 32)]\<rparr>)
   \<and> has_temp (Breakpoints (proc0\<lparr>Breakpoints := [(32, temp_bp 32)]\<rparr>))
   \<and> clearTempBreakpoints env_next_fails (proc0\<lparr>Breakpoints := [(32, temp_bp 32)]\<rparr>) = (None, proc0)
   \<and> Next env_next_fails proc0 = Some (Some (OtherError 9), proc0)
   \<and> thread_GetG env0 (cur proc0) (tracee proc0) = Inl (OtherError 0)
   \<and> Next env0 proc0 = Some (Some (OtherError 0), proc0)"
proof -
  let ?sb = "proc0\<lparr>Breakpoints := [(32, temp_bp 32)]\<rparr>"
  have g0: "thread_GetG env0 (cur proc0) (tracee proc0) = Inl (OtherError 0)"
    by (simp add: env0_def)
  have h1: "\<not> has_temp (Breakpoints proc0)"
    by (simp add: has_temp_def proc0_def)
  have h2: "thread_GetG env_next_fails (cur proc0) (tracee proc0) = Inr g_running"
    by (simp add: env_next_fails_def env_next_def env_stop_def env0_def)
  have h3: "setChanRecvBreakpoints env_next_fails proc0 = (Inr 0, proc0)"
    by (simp add: Next_defs cur_def env_next_fails_def env_next_def env_stop_def env0_def proc0_def)
  have h4: "thread_setNextBreakpoints env_next_fails (CurrentThread proc0) proc0
              = (Some (OtherError 9), ?sb)"
    by (simp add: env_next_fails_def env_next_def env_stop_def env0_def proc0_def)
  have h5: "clearTempBreakpoints env_next_fails ?sb = (None, proc0)"
    by (simp add: Continue_defs fun_eq_iff env_next_fails_def env_next_def env_stop_def env0_def
        proc0_def temp_bp_def thread0_def)
  have h6: "keys_are_addrs (Breakpoints ?sb)" "has_temp (Breakpoints ?sb)"
    by (simp_all add: keys_are_addrs_def has_temp_def temp_bp_def)
  have hyp: "\<not> has_temp (Breakpoints proc0)
        \<and> thread_GetG env_next_fails (cur proc0) (tracee proc0) = Inr g_running
        \<and> setChanRecvBreakpoints env_next_fails proc0 = (Inr 0, proc0)
        \<and> thread_setNextBreakpoints env_next_fails (CurrentThread proc0) proc0 = (Some (OtherError 9), ?sb)
        \<and> OtherError 9 \<noteq> ThreadBlockedError \<and> OtherError 9 \<noteq> NoReturnAddr
        \<and> (\<forall>goid. OtherError 9 \<noteq> GoroutineExitingError goid)
        \<and> clearTempBreakpoints env_next_fails ?sb = (None, proc0) \<and> keys_are_addrs (Breakpoints ?sb)"
    using h1 h2 h3 h4 h5 h6 by simp
  have fails: "Next env_next_fails proc0 = Some (Some (OtherError 9), proc0)"
    using Next_temps_after_return [of env_next_fails proc0 _ g_running 0 proc0 "OtherError 9" ?sb proc0]
      hyp by blast
  have no_g: "Next env0 proc0 = Some (Some (OtherError 0), proc0)"
    using Next_temps_after_return [where e = env0 and s = proc0 and gerr = "OtherError 0"] h1 g0
    by simp
  have "\<not> has_temp (Breakpoints (proc0\<lparr>SelectedGoroutine := Some g_running, theap := unlatched True\<rparr>))"
    by (simp add: has_temp_def proc0_def)
  then show ?thesis
    using Next_temp_hit h1 h4 h5 h6 fails g0 no_g by simp
qed

text \<open>
  C1 as the spec states it: no temporary breakpoint is left whenever \<^verbatim>\<open>Next\<close> returns.
  Here \<^verbatim>\<open>setNextBreakpoints\<close> sets a temporary breakpoint at 32 and the process stops
  with no breakpoint hit, as on a manual stop: \<^verbatim>\<open>Next\<close> returns \<^verbatim>\<open>nil\<close> and the
  temporary breakpoint is in the table.
\<close>

theorem Next_leaves_temps_counterexample:
  "Next env_next proc0 = Some (None, proc_next) \<and> has_temp (Breakpoints proc_next)"
  using Next_manual_stop by (simp add: has_temp_def proc_next_def temp_bp_def)

end
